theory Spec2Isabelle
  imports Main "HOL-Library.AList"
begin

section \<open>Data model\<close>

text \<open>
  The request pipeline of \<^verbatim>\<open>openapi_core/validation/request/validators.py\<close> and
  \<^verbatim>\<open>openapi_core/unmarshalling/request/unmarshallers.py\<close>.

  A Python \<^verbatim>\<open>dict\<close> is an association list: \<open>map_of d k\<close> reads a key,
  \<open>AList.update k v d\<close> is \<^verbatim>\<open>d[k] = v\<close> (the value is replaced in place when the
  key is there, the pair is appended otherwise), \<open>map fst d\<close> is \<^verbatim>\<open>d.keys()\<close>.
  Raw parameter values, resolved values, credentials, schemas and security schemes are
  opaque to the pipeline and are strings here.
\<close>

type_synonym ('k, 'v) dict = "('k \<times> 'v) list"
type_synonym raw = string
type_synonym val = string
type_synonym scheme = string

text \<open>The value of a parameter's \<^verbatim>\<open>in\<close> key.\<close>

datatype location = In_query | In_header | In_path | In_cookie

text \<open>
  Modelled from the spec: \<^verbatim>\<open>RequestParameters\<close> and \<^verbatim>\<open>Parameters\<close>
  (\<^verbatim>\<open>openapi_core.datatypes\<close>) are not among the sources. By the data model of the
  specification each is four named mappings, for the query, the headers, the path and the
  cookies, from a parameter name to a value; \<^verbatim>\<open>Parameters()\<close> starts with four empty
  ones.
\<close>

record 'v by_location =
  query :: "(string, 'v) dict"
  header :: "(string, 'v) dict"
  path :: "(string, 'v) dict"
  cookie :: "(string, 'v) dict"

type_synonym RequestParameters = "raw by_location"
type_synonym Parameters = "val by_location"

definition Parameters :: "Parameters" where
  "Parameters = \<lparr>query = [], header = [], path = [], cookie = []\<rparr>"

fun getattr :: "'v by_location \<Rightarrow> location \<Rightarrow> (string, 'v) dict" where
  "getattr ps In_query = query ps"
| "getattr ps In_header = header ps"
| "getattr ps In_path = path ps"
| "getattr ps In_cookie = cookie ps"

fun setattr :: "'v by_location \<Rightarrow> location \<Rightarrow> (string, 'v) dict \<Rightarrow> 'v by_location" where
  "setattr ps In_query d = ps\<lparr>query := d\<rparr>"
| "setattr ps In_header d = ps\<lparr>header := d\<rparr>"
| "setattr ps In_path d = ps\<lparr>path := d\<rparr>"
| "setattr ps In_cookie d = ps\<lparr>cookie := d\<rparr>"

text \<open>
  A parameter descriptor of the contract: the keys \<^verbatim>\<open>name\<close>, \<^verbatim>\<open>in\<close>,
  \<^verbatim>\<open>required\<close> (default false), \<^verbatim>\<open>deprecated\<close> (default false) and the
  schema with its style, which only the deserialise/cast/validate capability reads.
\<close>

record param =
  param_name :: string
  param_in :: location
  param_required :: bool
  param_deprecated :: bool
  param_schema :: string

text \<open>A security requirement alternative: scheme name to scopes.\<close>

type_synonym security_requirement = "(string, string list) dict"

record request_body =
  body_required :: bool
  body_content :: string

text \<open>
  An \<^verbatim>\<open>Operation\<close> and a \<^verbatim>\<open>PathItem\<close> are both \<^verbatim>\<open>Spec\<close> subtrees, and the code
  reads the same keys from either: \<^verbatim>\<open>parameters\<close> (\<^verbatim>\<open>get("parameters", [])\<close>, so
  an absent key is the empty list), \<^verbatim>\<open>security\<close> and \<^verbatim>\<open>requestBody\<close>.
\<close>

record spec_node =
  node_parameters :: "param list"
  node_security :: "security_requirement list option"
  node_requestBody :: "request_body option"

subsection \<open>Exceptions\<close>

datatype exn =
    KeyError
  | StageFailure string
  | PathError string
  | SecurityProviderError
  | SecurityNotFound "string list list"
  | InvalidSecurity string
  | MissingParameter string location
  | MissingRequiredParameter string location
  | InvalidParameter string location string
  | MissingRequestBody
  | MissingRequiredRequestBody
  | InvalidRequestBody string
  | ParametersError "exn list" Parameters

datatype exn_class =
    C_KeyError
  | C_PathError
  | C_SecurityProviderError
  | C_SecurityValidationError
  | C_SecurityError
  | C_ParameterValidationError
  | C_MissingParameter
  | C_RequestBodyValidationError
  | C_RequestBodyError
  | C_MissingRequestBody
  | C_ParametersError

text \<open>
  Modelled from the spec: the exception classes of
  \<^verbatim>\<open>openapi_core.validation.request.exceptions\<close>,
  \<^verbatim>\<open>openapi_core.templating\<close> and \<^verbatim>\<open>openapi_core.security.exceptions\<close>, which the
  two modules import and match in their \<^verbatim>\<open>except\<close> clauses, are not among the
  sources. The taxonomy of the specification gives the kinds: a routing error; a security
  error (\<^verbatim>\<open>SecurityNotFound\<close>), matched under both names the two modules use; the
  parameter errors (missing, missing required, invalid), of which a missing optional
  parameter is the only \<^verbatim>\<open>MissingParameter\<close>; the body errors (missing, missing
  required, invalid), matched under both names the two modules use, of which a missing
  optional body is the only \<^verbatim>\<open>MissingRequestBody\<close>. \<open>StageFailure\<close> is a failure
  of a style deserialiser, media-type deserialiser, caster or schema validator before it
  is wrapped.
\<close>

fun isinstance :: "exn \<Rightarrow> exn_class \<Rightarrow> bool" where
  "isinstance KeyError c = (c = C_KeyError)"
| "isinstance (StageFailure _) c = False"
| "isinstance (PathError _) c = (c = C_PathError)"
| "isinstance SecurityProviderError c = (c = C_SecurityProviderError)"
| "isinstance (SecurityNotFound _) c = (c = C_SecurityValidationError \<or> c = C_SecurityError)"
| "isinstance (InvalidSecurity _) c = (c = C_SecurityValidationError \<or> c = C_SecurityError)"
| "isinstance (MissingParameter _ _) c = (c = C_MissingParameter \<or> c = C_ParameterValidationError)"
| "isinstance (MissingRequiredParameter _ _) c = (c = C_ParameterValidationError)"
| "isinstance (InvalidParameter _ _ _) c = (c = C_ParameterValidationError)"
| "isinstance MissingRequestBody c =
     (c = C_MissingRequestBody \<or> c = C_RequestBodyValidationError \<or> c = C_RequestBodyError)"
| "isinstance MissingRequiredRequestBody c =
     (c = C_RequestBodyValidationError \<or> c = C_RequestBodyError)"
| "isinstance (InvalidRequestBody _) c =
     (c = C_RequestBodyValidationError \<or> c = C_RequestBodyError)"
| "isinstance (ParametersError _ _) c = (c = C_ParametersError)"

text \<open>
  Modelled from the spec: the decorator \<^verbatim>\<open>ValidationErrorWrapper(err_cls,
  err_validate_cls, ...)\<close> of \<^verbatim>\<open>openapi_core.validation.decorators\<close> is not among the
  sources. By the propagation policy of the specification a low-level stage failure is
  wrapped into the owning domain error, which keeps the cause; an error that already is
  of the domain class passes unchanged. \<open>mk\<close> builds the domain error from the cause.
\<close>

definition ValidationErrorWrapper ::
  "exn_class \<Rightarrow> (string \<Rightarrow> exn) \<Rightarrow> exn + 'a \<Rightarrow> exn + 'a" where
  "ValidationErrorWrapper err_cls mk r =
     (case r of
        Inr v \<Rightarrow> Inr v
      | Inl e \<Rightarrow>
          if isinstance e err_cls then Inl e
          else (case e of StageFailure cause \<Rightarrow> Inl (mk cause) | _ \<Rightarrow> Inl e))"

subsection \<open>Requests, results and the validator instance\<close>

record request =
  req_method :: string
  req_host_url :: string
  req_path :: string
  req_parameters :: RequestParameters
  req_body :: "string option"
  req_mimetype :: string

text \<open>
  Modelled from the spec: \<^verbatim>\<open>RequestUnmarshalResult\<close>
  (\<^verbatim>\<open>openapi_core.unmarshalling.request.datatypes\<close>) is not among the sources. By the
  data model of the specification it has the errors, and a body, the validated parameters
  and the security mapping, each of which is present or absent; a field the constructor
  call does not pass is absent, and so is a body passed as \<^verbatim>\<open>None\<close>.
\<close>

record RequestUnmarshalResult =
  errors :: "exn list"
  body :: "val option"
  parameters :: "Parameters option"
  security :: "(string, string option) dict option"

text \<open>What \<^verbatim>\<open>_find_path\<close> returns, as far as the pipeline reads it.\<close>

record path_found =
  found_path :: spec_node
  found_operation :: spec_node
  found_variables :: "(string, raw) dict"

text \<open>
  The validator instance \<^verbatim>\<open>self\<close>: what the methods read of the contract document
  (\<^verbatim>\<open>self.spec\<close>) and the capabilities they call, whose code is not among the sources.
  \<^item> \<open>spec_security\<close>: the document's \<^verbatim>\<open>security\<close> key, when it has one;
  \<^item> \<open>spec_securitySchemes\<close>: \<^verbatim>\<open>components#securitySchemes\<close>;
  \<^item> \<open>security_provider\<close>: \<^verbatim>\<open>security_provider_factory.create(scheme)(parameters)\<close>,
    with \<open>None\<close> for \<^verbatim>\<open>SecurityProviderError\<close>;
  \<^item> \<open>param_pipeline\<close>: the style deserialiser, caster and validator (or unmarshaller)
    run on a raw parameter value that is present, \<open>Inl\<close> the cause of a failure;
  \<^item> \<open>convert_content_schema_value\<close>: the same for a raw body, its content
    declarations and the mimetype;
  \<^item> \<open>find_path\<close>: \<^verbatim>\<open>_find_path\<close> of the path finder the class selects.
\<close>

record validator =
  spec_security :: "security_requirement list option"
  spec_securitySchemes :: "(string, scheme) dict"
  security_provider :: "scheme \<Rightarrow> RequestParameters \<Rightarrow> string option"
  param_pipeline :: "param \<Rightarrow> raw \<Rightarrow> string + val"
  convert_content_schema_value :: "string \<Rightarrow> string \<Rightarrow> string \<Rightarrow> string + val"
  find_path :: "request \<Rightarrow> exn + path_found"

section \<open>Parameter resolution\<close>

text \<open>
  Modelled from the spec: \<^verbatim>\<open>_get_param_or_header\<close> is a method of the base validator,
  which is not among the sources. By step 2 and step 4 of the parameter resolver it looks
  the raw value up in the location mapping, raises \<^verbatim>\<open>KeyError\<close> when the name is
  absent, and otherwise runs the deserialise, cast and validate stages on the raw value.
\<close>

definition get_param_or_header ::
  "validator \<Rightarrow> param \<Rightarrow> (string, raw) dict \<Rightarrow> string \<Rightarrow> exn + val" where
  "get_param_or_header self prm loc name =
     (case map_of loc name of
        None \<Rightarrow> Inl KeyError
      | Some rawv \<Rightarrow>
          (case param_pipeline self prm rawv of
             Inl cause \<Rightarrow> Inl (StageFailure cause)
           | Inr v \<Rightarrow> Inr v))"

text \<open>
  \<^verbatim>\<open>_get_parameter\<close>, with its decorator
  \<^verbatim>\<open>ValidationErrorWrapper(ParameterValidationError, InvalidParameter, "from_spec",
  spec="param")\<close>. The \<^verbatim>\<open>DeprecationWarning\<close> it emits for a deprecated parameter goes
  to the warnings channel and changes neither the value returned nor the exception raised.
\<close>

definition get_parameter_body :: "validator \<Rightarrow> RequestParameters \<Rightarrow> param \<Rightarrow> exn + val" where
  "get_parameter_body self ps prm =
     (let name = param_name prm;
          param_location = param_in prm;
          loc = getattr ps param_location
      in case get_param_or_header self prm loc name of
           Inr v \<Rightarrow> Inr v
         | Inl e \<Rightarrow>
             if isinstance e C_KeyError then
               (if param_required prm then Inl (MissingRequiredParameter name param_location)
                else Inl (MissingParameter name param_location))
             else Inl e)"

definition get_parameter :: "validator \<Rightarrow> RequestParameters \<Rightarrow> param \<Rightarrow> exn + val" where
  "get_parameter self ps prm =
     ValidationErrorWrapper C_ParameterValidationError
       (InvalidParameter (param_name prm) (param_in prm))
       (get_parameter_body self ps prm)"

text \<open>
  The loop of \<^verbatim>\<open>_get_parameters\<close> over the chained descriptors, on its three local
  variables. An exception of \<^verbatim>\<open>_get_parameter\<close> that neither \<^verbatim>\<open>except\<close> clause
  matches leaves the loop and the method.
\<close>

record loop_state =
  st_errors :: "exn list"
  st_seen :: "(string \<times> location) set"
  st_validated :: Parameters

fun params_loop ::
  "validator \<Rightarrow> RequestParameters \<Rightarrow> param list \<Rightarrow> loop_state \<Rightarrow> exn + loop_state" where
  "params_loop self ps [] st = Inr st"
| "params_loop self ps (prm # rest) st =
     (let param_name' = param_name prm; param_location = param_in prm in
      if (param_name', param_location) \<in> st_seen st then params_loop self ps rest st
      else
        let st1 = st\<lparr>st_seen := insert (param_name', param_location) (st_seen st)\<rparr> in
        case get_parameter self ps prm of
          Inl exc \<Rightarrow>
            if isinstance exc C_MissingParameter then params_loop self ps rest st1
            else if isinstance exc C_ParameterValidationError then
              params_loop self ps rest (st1\<lparr>st_errors := st_errors st1 @ [exc]\<rparr>)
            else Inl exc
        | Inr v \<Rightarrow>
            params_loop self ps rest
              (st1\<lparr>st_validated :=
                 setattr (st_validated st1) param_location
                   (AList.update param_name' v (getattr (st_validated st1) param_location))\<rparr>))"

definition get_parameters ::
  "validator \<Rightarrow> RequestParameters \<Rightarrow> spec_node \<Rightarrow> spec_node \<Rightarrow> exn + Parameters" where
  "get_parameters self ps operation pth =
     (let operation_params = node_parameters operation;
          path_params = node_parameters pth
      in case params_loop self ps (operation_params @ path_params)
                \<lparr>st_errors = [], st_seen = {}, st_validated = Parameters\<rparr> of
           Inl exc \<Rightarrow> Inl exc
         | Inr st \<Rightarrow>
             if st_errors st \<noteq> [] then Inl (ParametersError (st_errors st) (st_validated st))
             else Inr (st_validated st))"

section \<open>Security resolution\<close>

text \<open>
  \<^verbatim>\<open>_get_security_value\<close>: a scheme name the document does not declare gives
  \<^verbatim>\<open>None\<close>, not an error.
\<close>

definition get_security_value ::
  "validator \<Rightarrow> RequestParameters \<Rightarrow> string \<Rightarrow> exn + string option" where
  "get_security_value self ps scheme_name =
     (case map_of (spec_securitySchemes self) scheme_name of
        None \<Rightarrow> Inr None
      | Some scheme \<Rightarrow>
          (case security_provider self scheme ps of
             None \<Rightarrow> Inl SecurityProviderError
           | Some credential \<Rightarrow> Inr (Some credential)))"

text \<open>
  The dict comprehension of \<^verbatim>\<open>_get_security\<close>: the scheme names in order, the first
  exception ends it.
\<close>

fun security_values ::
  "validator \<Rightarrow> RequestParameters \<Rightarrow> string list \<Rightarrow> (string, string option) dict \<Rightarrow>
   exn + (string, string option) dict" where
  "security_values self ps [] d = Inr d"
| "security_values self ps (scheme_name # names) d =
     (case get_security_value self ps scheme_name of
        Inl exc \<Rightarrow> Inl exc
      | Inr v \<Rightarrow> security_values self ps names (AList.update scheme_name v d))"

text \<open>The \<^verbatim>\<open>for security_requirement in security\<close> loop, on its local \<^verbatim>\<open>schemes\<close>.\<close>

fun security_loop ::
  "validator \<Rightarrow> RequestParameters \<Rightarrow> security_requirement list \<Rightarrow> string list list \<Rightarrow>
   exn + (string, string option) dict" where
  "security_loop self ps [] schemes = Inl (SecurityNotFound schemes)"
| "security_loop self ps (security_requirement # rest) schemes =
     (let scheme_names = map fst security_requirement;
          schemes1 = schemes @ [scheme_names]
      in case security_values self ps scheme_names [] of
           Inr d \<Rightarrow> Inr d
         | Inl exc \<Rightarrow>
             if isinstance exc C_SecurityProviderError
             then security_loop self ps rest schemes1
             else Inl exc)"

text \<open>
  \<^verbatim>\<open>_get_security\<close>. \<^verbatim>\<open>not security\<close> is Python's truth test: it holds of
  \<^verbatim>\<open>None\<close> and of a \<^verbatim>\<open>security\<close> subtree with no alternative.
\<close>

definition effective_security ::
  "validator \<Rightarrow> spec_node \<Rightarrow> security_requirement list option" where
  "effective_security self operation =
     (let security0 = None;
          security1 = (if spec_security self \<noteq> None then spec_security self else security0);
          security2 = (if node_security operation \<noteq> None then node_security operation
                       else security1)
      in security2)"

definition get_security_body ::
  "validator \<Rightarrow> RequestParameters \<Rightarrow> spec_node \<Rightarrow> exn + (string, string option) dict" where
  "get_security_body self ps operation =
     (case effective_security self operation of
        None \<Rightarrow> Inr []
      | Some alternatives \<Rightarrow>
          if alternatives = [] then Inr []
          else security_loop self ps alternatives [])"

definition get_security ::
  "validator \<Rightarrow> RequestParameters \<Rightarrow> spec_node \<Rightarrow> exn + (string, string option) dict" where
  "get_security self ps operation =
     ValidationErrorWrapper C_SecurityValidationError InvalidSecurity
       (get_security_body self ps operation)"

section \<open>Body resolution\<close>

text \<open>\<^verbatim>\<open>_get_body_value\<close>: \<^verbatim>\<open>not body\<close> holds of \<^verbatim>\<open>None\<close> and of the empty string.\<close>

definition get_body_value :: "string option \<Rightarrow> request_body \<Rightarrow> exn + string" where
  "get_body_value body0 request_body =
     (case body0 of
        None \<Rightarrow>
          if body_required request_body then Inl MissingRequiredRequestBody
          else Inl MissingRequestBody
      | Some b \<Rightarrow>
          if b = [] then
            (if body_required request_body then Inl MissingRequiredRequestBody
             else Inl MissingRequestBody)
          else Inr b)"

text \<open>
  \<^verbatim>\<open>_get_body\<close>, with its decorator
  \<^verbatim>\<open>ValidationErrorWrapper(RequestBodyValidationError, InvalidRequestBody)\<close>. The value
  is \<^verbatim>\<open>None\<close> when the operation declares no request body.
\<close>

definition get_body_body ::
  "validator \<Rightarrow> string option \<Rightarrow> string \<Rightarrow> spec_node \<Rightarrow> exn + val option" where
  "get_body_body self body0 mimetype operation =
     (case node_requestBody operation of
        None \<Rightarrow> Inr None
      | Some request_body \<Rightarrow>
          (let content = body_content request_body in
           case get_body_value body0 request_body of
             Inl exc \<Rightarrow> Inl exc
           | Inr raw_body \<Rightarrow>
               (case convert_content_schema_value self raw_body content mimetype of
                  Inl cause \<Rightarrow> Inl (StageFailure cause)
                | Inr v \<Rightarrow> Inr (Some v))))"

definition get_body ::
  "validator \<Rightarrow> string option \<Rightarrow> string \<Rightarrow> spec_node \<Rightarrow> exn + val option" where
  "get_body self body0 mimetype operation =
     ValidationErrorWrapper C_RequestBodyValidationError InvalidRequestBody
       (get_body_body self body0 mimetype operation)"

section \<open>The validate mode\<close>

text \<open>
  A generator of errors is the list of what it yields and, when an exception that no
  \<^verbatim>\<open>except\<close> clause matches ends it, that exception.
\<close>

type_synonym error_iterator = "exn list \<times> exn option"

text \<open>\<^verbatim>\<open>try: ... except ParametersError as exc: yield from exc.errors\<close>.\<close>

fun yield_from_ParametersError :: "exn + Parameters \<Rightarrow> error_iterator" where
  "yield_from_ParametersError (Inr _) = ([], None)"
| "yield_from_ParametersError (Inl (ParametersError errs _)) = (errs, None)"
| "yield_from_ParametersError (Inl exc) = ([], Some exc)"

text \<open>\<^verbatim>\<open>try: ... except cls as exc: yield exc\<close>.\<close>

definition yield_except :: "exn_class \<Rightarrow> exn + 'a \<Rightarrow> error_iterator" where
  "yield_except cls r =
     (case r of
        Inr _ \<Rightarrow> ([], None)
      | Inl exc \<Rightarrow> if isinstance exc cls then ([exc], None) else ([], Some exc))"

text \<open>One part of a generator's body after another: the second runs when the first ends normally.\<close>

definition then_iter :: "error_iterator \<Rightarrow> error_iterator \<Rightarrow> error_iterator" where
  "then_iter g h = (case snd g of Some exc \<Rightarrow> g | None \<Rightarrow> (fst g @ fst h, snd h))"

text \<open>\<^verbatim>\<open>BaseRequestValidator._iter_errors\<close>.\<close>

definition BaseRequestValidator_iter_errors ::
  "validator \<Rightarrow> request \<Rightarrow> spec_node \<Rightarrow> spec_node \<Rightarrow> error_iterator" where
  "BaseRequestValidator_iter_errors self request operation pth =
     (case get_security self (req_parameters request) operation of
        Inl exc \<Rightarrow>
          if isinstance exc C_SecurityValidationError then ([exc], None) else ([], Some exc)
      | Inr _ \<Rightarrow>
          then_iter
            (yield_from_ParametersError
               (get_parameters self (req_parameters request) operation pth))
            (yield_except C_RequestBodyValidationError
               (get_body self (req_body request) (req_mimetype request) operation)))"

text \<open>\<^verbatim>\<open>BaseRequestValidator._iter_body_errors\<close>.\<close>

definition BaseRequestValidator_iter_body_errors ::
  "validator \<Rightarrow> request \<Rightarrow> spec_node \<Rightarrow> error_iterator" where
  "BaseRequestValidator_iter_body_errors self request operation =
     yield_except C_RequestBodyValidationError
       (get_body self (req_body request) (req_mimetype request) operation)"

text \<open>
  \<^verbatim>\<open>BaseRequestValidator._iter_parameters_errors\<close>. The call is
  \<^verbatim>\<open>self._get_parameters(request.parameters, path, operation)\<close>.
\<close>

definition BaseRequestValidator_iter_parameters_errors ::
  "validator \<Rightarrow> request \<Rightarrow> spec_node \<Rightarrow> spec_node \<Rightarrow> error_iterator" where
  "BaseRequestValidator_iter_parameters_errors self request operation pth =
     yield_from_ParametersError (get_parameters self (req_parameters request) pth operation)"

text \<open>\<^verbatim>\<open>BaseRequestValidator._iter_security_errors\<close>.\<close>

definition BaseRequestValidator_iter_security_errors ::
  "validator \<Rightarrow> request \<Rightarrow> spec_node \<Rightarrow> error_iterator" where
  "BaseRequestValidator_iter_security_errors self request operation =
     yield_except C_SecurityValidationError
       (get_security self (req_parameters request) operation)"

text \<open>
  \<^verbatim>\<open>request.parameters.path = request.parameters.path or path_result.variables\<close>: the
  request the stages then read.
\<close>

definition set_path_parameters :: "request \<Rightarrow> path_found \<Rightarrow> request" where
  "set_path_parameters request found =
     request\<lparr>req_parameters := (req_parameters request)
       \<lparr>path := (if path (req_parameters request) \<noteq> [] then path (req_parameters request)
                 else found_variables found)\<rparr>\<rparr>"

text \<open>
  The \<^verbatim>\<open>iter_errors\<close> methods of the four API-call validators. The four webhook
  validators have the same bodies and differ in the path finder behind \<open>find_path\<close>.
\<close>

definition APICallRequestValidator_iter_errors :: "validator \<Rightarrow> request \<Rightarrow> error_iterator" where
  "APICallRequestValidator_iter_errors self request =
     (case find_path self request of
        Inl exc \<Rightarrow> if isinstance exc C_PathError then ([exc], None) else ([], Some exc)
      | Inr found \<Rightarrow>
          BaseRequestValidator_iter_errors self (set_path_parameters request found)
            (found_operation found) (found_path found))"

definition APICallRequestParametersValidator_iter_errors ::
  "validator \<Rightarrow> request \<Rightarrow> error_iterator" where
  "APICallRequestParametersValidator_iter_errors self request =
     (case find_path self request of
        Inl exc \<Rightarrow> if isinstance exc C_PathError then ([exc], None) else ([], Some exc)
      | Inr found \<Rightarrow>
          BaseRequestValidator_iter_parameters_errors self (set_path_parameters request found)
            (found_operation found) (found_path found))"

definition APICallRequestBodyValidator_iter_errors ::
  "validator \<Rightarrow> request \<Rightarrow> error_iterator" where
  "APICallRequestBodyValidator_iter_errors self request =
     (case find_path self request of
        Inl exc \<Rightarrow> if isinstance exc C_PathError then ([exc], None) else ([], Some exc)
      | Inr found \<Rightarrow>
          BaseRequestValidator_iter_body_errors self request (found_operation found))"

definition APICallRequestSecurityValidator_iter_errors ::
  "validator \<Rightarrow> request \<Rightarrow> error_iterator" where
  "APICallRequestSecurityValidator_iter_errors self request =
     (case find_path self request of
        Inl exc \<Rightarrow> if isinstance exc C_PathError then ([exc], None) else ([], Some exc)
      | Inr found \<Rightarrow>
          BaseRequestValidator_iter_security_errors self request (found_operation found))"

text \<open>
  \<^verbatim>\<open>validate\<close>: \<^verbatim>\<open>for err in self.iter_errors(request): raise err\<close>. The first error
  the generator yields is raised; a generator that ends by an exception before it yields
  passes that exception on; otherwise the method returns \<^verbatim>\<open>None\<close>.
\<close>

fun validate :: "error_iterator \<Rightarrow> exn + unit" where
  "validate (err # _, _) = Inl err"
| "validate ([], Some exc) = Inl exc"
| "validate ([], None) = Inr ()"

section \<open>The unmarshal mode\<close>

text \<open>
  \<^verbatim>\<open>try: params = ... except ParametersError as exc: params = exc.parameters;
  params_errors = exc.errors else: params_errors = []\<close>: the pair of
  \<^verbatim>\<open>params\<close> and \<^verbatim>\<open>params_errors\<close>, or the exception the clause does not match.
\<close>

fun params_or_ParametersError :: "exn + Parameters \<Rightarrow> exn + (Parameters \<times> exn list)" where
  "params_or_ParametersError (Inr params) = Inr (params, [])"
| "params_or_ParametersError (Inl (ParametersError errs params)) = Inr (params, errs)"
| "params_or_ParametersError (Inl exc) = Inl exc"

text \<open>
  \<^verbatim>\<open>try: body = ... except MissingRequestBody: body = None; body_errors = [] except
  RequestBodyError as exc: body = None; body_errors = [exc] else: body_errors = []\<close>.
\<close>

definition body_or_RequestBodyError :: "exn + val option \<Rightarrow> exn + (val option \<times> exn list)" where
  "body_or_RequestBodyError r =
     (case r of
        Inr b \<Rightarrow> Inr (b, [])
      | Inl exc \<Rightarrow>
          if isinstance exc C_MissingRequestBody then Inr (None, [])
          else if isinstance exc C_RequestBodyError then Inr (None, [exc])
          else Inl exc)"

text \<open>\<^verbatim>\<open>BaseRequestUnmarshaller._unmarshal\<close>.\<close>

definition BaseRequestUnmarshaller_unmarshal ::
  "validator \<Rightarrow> request \<Rightarrow> spec_node \<Rightarrow> spec_node \<Rightarrow> exn + RequestUnmarshalResult" where
  "BaseRequestUnmarshaller_unmarshal self request operation pth =
     (case get_security self (req_parameters request) operation of
        Inl exc \<Rightarrow>
          if isinstance exc C_SecurityError
          then Inr \<lparr>errors = [exc], body = None, parameters = None, security = None\<rparr>
          else Inl exc
      | Inr security0 \<Rightarrow>
          (case params_or_ParametersError
                  (get_parameters self (req_parameters request) operation pth) of
             Inl exc \<Rightarrow> Inl exc
           | Inr (params, params_errors) \<Rightarrow>
               (case body_or_RequestBodyError
                       (get_body self (req_body request) (req_mimetype request) operation) of
                  Inl exc \<Rightarrow> Inl exc
                | Inr (body0, body_errors) \<Rightarrow>
                    Inr \<lparr>errors = params_errors @ body_errors, body = body0,
                         parameters = Some params, security = Some security0\<rparr>)))"

text \<open>\<^verbatim>\<open>BaseRequestUnmarshaller._unmarshal_body\<close>.\<close>

definition BaseRequestUnmarshaller_unmarshal_body ::
  "validator \<Rightarrow> request \<Rightarrow> spec_node \<Rightarrow> spec_node \<Rightarrow> exn + RequestUnmarshalResult" where
  "BaseRequestUnmarshaller_unmarshal_body self request operation pth =
     (case body_or_RequestBodyError
             (get_body self (req_body request) (req_mimetype request) operation) of
        Inl exc \<Rightarrow> Inl exc
      | Inr (body0, errors0) \<Rightarrow>
          Inr \<lparr>errors = errors0, body = body0, parameters = None, security = None\<rparr>)"

text \<open>
  \<^verbatim>\<open>BaseRequestUnmarshaller._unmarshal_parameters\<close>. The call is
  \<^verbatim>\<open>self._get_parameters(request.parameters, path, operation)\<close>.
\<close>

definition BaseRequestUnmarshaller_unmarshal_parameters ::
  "validator \<Rightarrow> request \<Rightarrow> spec_node \<Rightarrow> spec_node \<Rightarrow> exn + RequestUnmarshalResult" where
  "BaseRequestUnmarshaller_unmarshal_parameters self request operation pth =
     (case params_or_ParametersError
             (get_parameters self (req_parameters request) pth operation) of
        Inl exc \<Rightarrow> Inl exc
      | Inr (params, params_errors) \<Rightarrow>
          Inr \<lparr>errors = params_errors, body = None, parameters = Some params,
               security = None\<rparr>)"

text \<open>\<^verbatim>\<open>BaseRequestUnmarshaller._unmarshal_security\<close>.\<close>

definition BaseRequestUnmarshaller_unmarshal_security ::
  "validator \<Rightarrow> request \<Rightarrow> spec_node \<Rightarrow> spec_node \<Rightarrow> exn + RequestUnmarshalResult" where
  "BaseRequestUnmarshaller_unmarshal_security self request operation pth =
     (case get_security self (req_parameters request) operation of
        Inl exc \<Rightarrow>
          if isinstance exc C_SecurityError
          then Inr \<lparr>errors = [exc], body = None, parameters = None, security = None\<rparr>
          else Inl exc
      | Inr security0 \<Rightarrow>
          Inr \<lparr>errors = [], body = None, parameters = None, security = Some security0\<rparr>)"

text \<open>
  The \<^verbatim>\<open>unmarshal\<close> methods of the four API-call unmarshallers: one body, up to the
  stage method called last. The four webhook unmarshallers have the same bodies.
\<close>

definition unmarshal_with ::
  "(validator \<Rightarrow> request \<Rightarrow> spec_node \<Rightarrow> spec_node \<Rightarrow> exn + RequestUnmarshalResult) \<Rightarrow>
   validator \<Rightarrow> request \<Rightarrow> exn + RequestUnmarshalResult" where
  "unmarshal_with stage self request =
     (case find_path self request of
        Inl exc \<Rightarrow>
          if isinstance exc C_PathError
          then Inr \<lparr>errors = [exc], body = None, parameters = None, security = None\<rparr>
          else Inl exc
      | Inr found \<Rightarrow>
          stage self (set_path_parameters request found)
            (found_operation found) (found_path found))"

definition APICallRequestUnmarshaller_unmarshal ::
  "validator \<Rightarrow> request \<Rightarrow> exn + RequestUnmarshalResult" where
  "APICallRequestUnmarshaller_unmarshal = unmarshal_with BaseRequestUnmarshaller_unmarshal"

definition APICallRequestBodyUnmarshaller_unmarshal ::
  "validator \<Rightarrow> request \<Rightarrow> exn + RequestUnmarshalResult" where
  "APICallRequestBodyUnmarshaller_unmarshal =
     unmarshal_with BaseRequestUnmarshaller_unmarshal_body"

definition APICallRequestParametersUnmarshaller_unmarshal ::
  "validator \<Rightarrow> request \<Rightarrow> exn + RequestUnmarshalResult" where
  "APICallRequestParametersUnmarshaller_unmarshal =
     unmarshal_with BaseRequestUnmarshaller_unmarshal_parameters"

definition APICallRequestSecurityUnmarshaller_unmarshal ::
  "validator \<Rightarrow> request \<Rightarrow> exn + RequestUnmarshalResult" where
  "APICallRequestSecurityUnmarshaller_unmarshal =
     unmarshal_with BaseRequestUnmarshaller_unmarshal_security"

section \<open>The classes and the path finder they resolve with\<close>

text \<open>
  The classes of the two modules and the four classes they import as bases
  (\<^verbatim>\<open>BaseValidator\<close>, \<^verbatim>\<open>BaseAPICallValidator\<close>, \<^verbatim>\<open>BaseWebhookValidator\<close>,
  \<^verbatim>\<open>BaseUnmarshaller\<close>).
\<close>

datatype path_finder = APICallPathFinder | WebhookPathFinder

datatype cls =
    BaseValidator
  | BaseAPICallValidator
  | BaseWebhookValidator
  | BaseUnmarshaller
  | BaseRequestValidator
  | BaseAPICallRequestValidator
  | BaseWebhookRequestValidator
  | APICallRequestBodyValidator
  | APICallRequestParametersValidator
  | APICallRequestSecurityValidator
  | APICallRequestValidator
  | WebhookRequestValidator
  | WebhookRequestBodyValidator
  | WebhookRequestParametersValidator
  | WebhookRequestSecurityValidator
  | V30RequestBodyValidator
  | V30RequestParametersValidator
  | V30RequestSecurityValidator
  | V30RequestValidator
  | V31RequestBodyValidator
  | V31RequestParametersValidator
  | V31RequestSecurityValidator
  | V31RequestValidator
  | V31WebhookRequestBodyValidator
  | V31WebhookRequestParametersValidator
  | V31WebhookRequestSecurityValidator
  | V31WebhookRequestValidator
  | BaseRequestUnmarshaller
  | BaseAPICallRequestUnmarshaller
  | BaseWebhookRequestUnmarshaller
  | APICallRequestUnmarshaller
  | APICallRequestBodyUnmarshaller
  | APICallRequestParametersUnmarshaller
  | APICallRequestSecurityUnmarshaller
  | WebhookRequestUnmarshaller
  | WebhookRequestBodyUnmarshaller
  | WebhookRequestParametersUnmarshaller
  | WebhookRequestSecuritysUnmarshaller
  | V30RequestBodyUnmarshaller
  | V30RequestParametersUnmarshaller
  | V30RequestSecurityUnmarshaller
  | V30RequestUnmarshaller
  | V31RequestBodyUnmarshaller
  | V31RequestParametersUnmarshaller
  | V31RequestSecurityUnmarshaller
  | V31RequestUnmarshaller
  | V31WebhookRequestBodyUnmarshaller
  | V31WebhookRequestParametersUnmarshaller
  | V31WebhookRequestSecurityUnmarshaller
  | V31WebhookRequestUnmarshaller

text \<open>The classes the two modules declare, in the order of their class statements.\<close>

definition module_classes :: "cls list" where
  "module_classes =
     [BaseRequestValidator, BaseAPICallRequestValidator, BaseWebhookRequestValidator,
     APICallRequestBodyValidator, APICallRequestParametersValidator,
     APICallRequestSecurityValidator, APICallRequestValidator, WebhookRequestValidator,
     WebhookRequestBodyValidator, WebhookRequestParametersValidator,
     WebhookRequestSecurityValidator, V30RequestBodyValidator, V30RequestParametersValidator,
     V30RequestSecurityValidator, V30RequestValidator, V31RequestBodyValidator,
     V31RequestParametersValidator, V31RequestSecurityValidator, V31RequestValidator,
     V31WebhookRequestBodyValidator, V31WebhookRequestParametersValidator,
     V31WebhookRequestSecurityValidator, V31WebhookRequestValidator, BaseRequestUnmarshaller,
     BaseAPICallRequestUnmarshaller, BaseWebhookRequestUnmarshaller,
     APICallRequestUnmarshaller, APICallRequestBodyUnmarshaller,
     APICallRequestParametersUnmarshaller, APICallRequestSecurityUnmarshaller,
     WebhookRequestUnmarshaller, WebhookRequestBodyUnmarshaller,
     WebhookRequestParametersUnmarshaller, WebhookRequestSecuritysUnmarshaller,
     V30RequestBodyUnmarshaller, V30RequestParametersUnmarshaller,
     V30RequestSecurityUnmarshaller, V30RequestUnmarshaller, V31RequestBodyUnmarshaller,
     V31RequestParametersUnmarshaller, V31RequestSecurityUnmarshaller, V31RequestUnmarshaller,
     V31WebhookRequestBodyUnmarshaller, V31WebhookRequestParametersUnmarshaller,
     V31WebhookRequestSecurityUnmarshaller, V31WebhookRequestUnmarshaller]"

text \<open>The bases of each class statement of the two modules, in order.\<close>

fun class_bases :: "cls \<Rightarrow> cls list" where
  "class_bases BaseRequestValidator = [BaseValidator]"
| "class_bases BaseAPICallRequestValidator = [BaseRequestValidator, BaseAPICallValidator]"
| "class_bases BaseWebhookRequestValidator = [BaseRequestValidator, BaseWebhookValidator]"
| "class_bases APICallRequestBodyValidator = [BaseAPICallRequestValidator]"
| "class_bases APICallRequestParametersValidator = [BaseAPICallRequestValidator]"
| "class_bases APICallRequestSecurityValidator = [BaseAPICallRequestValidator]"
| "class_bases APICallRequestValidator = [BaseAPICallRequestValidator]"
| "class_bases WebhookRequestValidator = [BaseWebhookRequestValidator]"
| "class_bases WebhookRequestBodyValidator = [BaseWebhookRequestValidator]"
| "class_bases WebhookRequestParametersValidator = [BaseWebhookRequestValidator]"
| "class_bases WebhookRequestSecurityValidator = [BaseWebhookRequestValidator]"
| "class_bases V30RequestBodyValidator = [APICallRequestBodyValidator]"
| "class_bases V30RequestParametersValidator = [APICallRequestParametersValidator]"
| "class_bases V30RequestSecurityValidator = [APICallRequestSecurityValidator]"
| "class_bases V30RequestValidator = [APICallRequestValidator]"
| "class_bases V31RequestBodyValidator = [APICallRequestBodyValidator]"
| "class_bases V31RequestParametersValidator = [APICallRequestParametersValidator]"
| "class_bases V31RequestSecurityValidator = [APICallRequestSecurityValidator]"
| "class_bases V31RequestValidator = [APICallRequestValidator]"
| "class_bases V31WebhookRequestBodyValidator = [WebhookRequestBodyValidator]"
| "class_bases V31WebhookRequestParametersValidator = [WebhookRequestParametersValidator]"
| "class_bases V31WebhookRequestSecurityValidator = [WebhookRequestSecurityValidator]"
| "class_bases V31WebhookRequestValidator = [WebhookRequestValidator]"
| "class_bases BaseRequestUnmarshaller = [BaseRequestValidator, BaseUnmarshaller]"
| "class_bases BaseAPICallRequestUnmarshaller = [BaseRequestUnmarshaller]"
| "class_bases BaseWebhookRequestUnmarshaller = [BaseRequestUnmarshaller]"
| "class_bases APICallRequestUnmarshaller =
     [APICallRequestValidator, BaseAPICallRequestUnmarshaller]"
| "class_bases APICallRequestBodyUnmarshaller =
     [APICallRequestValidator, BaseAPICallRequestUnmarshaller]"
| "class_bases APICallRequestParametersUnmarshaller =
     [APICallRequestValidator, BaseAPICallRequestUnmarshaller]"
| "class_bases APICallRequestSecurityUnmarshaller =
     [APICallRequestValidator, BaseAPICallRequestUnmarshaller]"
| "class_bases WebhookRequestUnmarshaller =
     [WebhookRequestValidator, BaseWebhookRequestUnmarshaller]"
| "class_bases WebhookRequestBodyUnmarshaller =
     [WebhookRequestValidator, BaseWebhookRequestUnmarshaller]"
| "class_bases WebhookRequestParametersUnmarshaller =
     [WebhookRequestValidator, BaseWebhookRequestUnmarshaller]"
| "class_bases WebhookRequestSecuritysUnmarshaller =
     [WebhookRequestValidator, BaseWebhookRequestUnmarshaller]"
| "class_bases V30RequestBodyUnmarshaller =
     [V30RequestBodyValidator, APICallRequestBodyUnmarshaller]"
| "class_bases V30RequestParametersUnmarshaller =
     [V30RequestParametersValidator, APICallRequestParametersUnmarshaller]"
| "class_bases V30RequestSecurityUnmarshaller =
     [V30RequestSecurityValidator, APICallRequestSecurityUnmarshaller]"
| "class_bases V30RequestUnmarshaller = [V30RequestValidator, APICallRequestUnmarshaller]"
| "class_bases V31RequestBodyUnmarshaller =
     [V31RequestBodyValidator, APICallRequestBodyUnmarshaller]"
| "class_bases V31RequestParametersUnmarshaller =
     [V31RequestParametersValidator, APICallRequestParametersUnmarshaller]"
| "class_bases V31RequestSecurityUnmarshaller =
     [V31RequestSecurityValidator, APICallRequestSecurityUnmarshaller]"
| "class_bases V31RequestUnmarshaller = [V31RequestValidator, APICallRequestUnmarshaller]"
| "class_bases V31WebhookRequestBodyUnmarshaller =
     [V31WebhookRequestBodyValidator, WebhookRequestBodyUnmarshaller]"
| "class_bases V31WebhookRequestParametersUnmarshaller =
     [V31WebhookRequestParametersValidator, WebhookRequestParametersUnmarshaller]"
| "class_bases V31WebhookRequestSecurityUnmarshaller =
     [V31WebhookRequestSecurityValidator, WebhookRequestSecuritysUnmarshaller]"
| "class_bases V31WebhookRequestUnmarshaller =
     [V31WebhookRequestValidator, WebhookRequestUnmarshaller]"
| "class_bases _ = []"

text \<open>
  The \<^verbatim>\<open>path_finder_cls\<close> a class body assigns, if any. No method of the two modules
  reads the attribute: the \<^verbatim>\<open>iter_errors\<close> and \<^verbatim>\<open>unmarshal\<close> methods call
  \<^verbatim>\<open>self._find_path(request)\<close> and nothing else of the path finder.
\<close>

fun path_finder_cls :: "cls \<Rightarrow> path_finder option" where
  "path_finder_cls V31RequestValidator = Some WebhookPathFinder"
| "path_finder_cls V31WebhookRequestBodyValidator = Some WebhookPathFinder"
| "path_finder_cls V31WebhookRequestParametersValidator = Some WebhookPathFinder"
| "path_finder_cls V31WebhookRequestSecurityValidator = Some WebhookPathFinder"
| "path_finder_cls V31WebhookRequestValidator = Some WebhookPathFinder"
| "path_finder_cls _ = None"

text \<open>
  Modelled from the spec: \<^verbatim>\<open>BaseValidator\<close>, \<^verbatim>\<open>BaseAPICallValidator\<close> and
  \<^verbatim>\<open>BaseWebhookValidator\<close> (\<^verbatim>\<open>openapi_core.validation.validators\<close>) and
  \<^verbatim>\<open>BaseUnmarshaller\<close> (\<^verbatim>\<open>openapi_core.unmarshalling.unmarshallers\<close>) are declared
  in modules that are not among the sources. By the design notes of the specification the
  validators and unmarshallers are one inheritance hierarchy: \<^verbatim>\<open>BaseValidator\<close> is its
  root and the other three derive from it.
\<close>

definition base_classes :: "(cls \<times> cls list) list" where
  "base_classes =
     [(BaseValidator, []), (BaseAPICallValidator, [BaseValidator]),
      (BaseWebhookValidator, [BaseValidator]), (BaseUnmarshaller, [BaseValidator])]"

definition bases :: "cls \<Rightarrow> cls list" where
  "bases c = (case map_of base_classes c of Some bs \<Rightarrow> bs | None \<Rightarrow> class_bases c)"

text \<open>
  Method lookup on a class follows its method resolution order, the C3 linearisation:
  the class, then the merge of the linearisations of its bases and the list of the bases.
  The merge takes the first head that is in no tail. Both recursions run on fuel, and
  \<open>None\<close> is an inconsistent hierarchy or fuel that ran out.
\<close>

fun c3_merge :: "nat \<Rightarrow> cls list list \<Rightarrow> cls list option" where
  "c3_merge 0 seqs = None"
| "c3_merge (Suc fuel) seqs =
     (let nonempty = filter (\<lambda>s. s \<noteq> []) seqs in
      if nonempty = [] then Some []
      else
        (case find (\<lambda>c. list_all (\<lambda>s. c \<notin> set (tl s)) nonempty) (map hd nonempty) of
           None \<Rightarrow> None
         | Some c \<Rightarrow>
             map_option ((#) c)
               (c3_merge fuel (map (\<lambda>s. if hd s = c then tl s else s) nonempty))))"

fun mro :: "nat \<Rightarrow> cls \<Rightarrow> cls list option" where
  "mro 0 c = None"
| "mro (Suc fuel) c =
     (case those (map (mro fuel) (bases c)) of
        None \<Rightarrow> None
      | Some ls \<Rightarrow> map_option ((#) c) (c3_merge 32 (ls @ [bases c])))"

text \<open>
  Modelled from the spec: \<^verbatim>\<open>_find_path\<close>, which every \<^verbatim>\<open>iter_errors\<close> and
  \<^verbatim>\<open>unmarshal\<close> method calls first, is a method of \<^verbatim>\<open>BaseAPICallValidator\<close> and of
  \<^verbatim>\<open>BaseWebhookValidator\<close>, which are not among the sources; no class of the two
  modules defines it. By section 4.1 of the specification path resolution has two
  variants, server-relative and webhook-relative, and the variant is a configuration
  choice of the orchestrator, not detected at run time: the method of
  \<^verbatim>\<open>BaseAPICallValidator\<close> resolves against the path declarations, the method of
  \<^verbatim>\<open>BaseWebhookValidator\<close> against the webhook declarations, and a class resolves with
  the method it inherits, the one of the first class of its resolution order that has it.
\<close>

fun own_find_path :: "cls \<Rightarrow> path_finder option" where
  "own_find_path BaseAPICallValidator = Some APICallPathFinder"
| "own_find_path BaseWebhookValidator = Some WebhookPathFinder"
| "own_find_path _ = None"

fun lookup_find_path :: "cls list \<Rightarrow> path_finder option" where
  "lookup_find_path [] = None"
| "lookup_find_path (c # cs) =
     (case own_find_path c of Some finder \<Rightarrow> Some finder | None \<Rightarrow> lookup_find_path cs)"

definition find_path_of_class :: "cls \<Rightarrow> path_finder option" where
  "find_path_of_class c =
     (case mro 16 c of None \<Rightarrow> None | Some cs \<Rightarrow> lookup_find_path cs)"

section \<open>A concrete contract and its requests\<close>

text \<open>
  Capabilities for the concrete inputs below: a parameter pipeline that accepts, under
  the schema \<open>''integer''\<close>, the non-empty digit strings and, under any other schema,
  every raw value; a body pipeline that accepts every body; a security provider that
  reads the credential from the header named by the scheme; a path finder with a fixed
  answer.
\<close>

definition example_pipeline :: "param \<Rightarrow> raw \<Rightarrow> string + val" where
  "example_pipeline prm rawv =
     (if param_schema prm = ''integer''
      then (if rawv \<noteq> [] \<and> list_all (\<lambda>c. c \<in> set ''0123456789'') rawv
            then Inr rawv else Inl ''not an integer'')
      else Inr rawv)"

definition example_provider :: "scheme \<Rightarrow> RequestParameters \<Rightarrow> string option" where
  "example_provider scheme ps = map_of (header ps) scheme"

definition example_validator ::
  "security_requirement list option \<Rightarrow> (string, scheme) dict \<Rightarrow> exn + path_found \<Rightarrow> validator"
  where
  "example_validator sec schemes answer =
     \<lparr>spec_security = sec, spec_securitySchemes = schemes,
      security_provider = example_provider, param_pipeline = example_pipeline,
      convert_content_schema_value = (\<lambda>raw_body content mimetype. Inr raw_body),
      find_path = (\<lambda>request. answer)\<rparr>"

definition example_request :: "(string, raw) dict \<Rightarrow> (string, raw) dict \<Rightarrow> string option \<Rightarrow> request"
  where
  "example_request q h b =
     \<lparr>req_method = ''GET'', req_host_url = ''http://localhost'', req_path = ''/pets'',
      req_parameters = \<lparr>query = q, header = h, path = [], cookie = []\<rparr>,
      req_body = b, req_mimetype = ''application/json''\<rparr>"

definition example_param :: "string \<Rightarrow> bool \<Rightarrow> string \<Rightarrow> param" where
  "example_param n r s =
     \<lparr>param_name = n, param_in = In_query, param_required = r, param_deprecated = False,
      param_schema = s\<rparr>"

definition example_node ::
  "param list \<Rightarrow> security_requirement list option \<Rightarrow> request_body option \<Rightarrow> spec_node" where
  "example_node ds sec rb = \<lparr>node_parameters = ds, node_security = sec, node_requestBody = rb\<rparr>"

definition example_found :: "spec_node \<Rightarrow> spec_node \<Rightarrow> exn + path_found" where
  "example_found pth operation =
     Inr \<lparr>found_path = pth, found_operation = operation, found_variables = []\<rparr>"

section \<open>Properties\<close>

subsection \<open>Facts about the stages\<close>

lemma get_parameter_cases:
  "get_parameter self ps prm =
     (case map_of (getattr ps (param_in prm)) (param_name prm) of
        None \<Rightarrow>
          if param_required prm
          then Inl (MissingRequiredParameter (param_name prm) (param_in prm))
          else Inl (MissingParameter (param_name prm) (param_in prm))
      | Some rawv \<Rightarrow>
          (case param_pipeline self prm rawv of
             Inl cause \<Rightarrow> Inl (InvalidParameter (param_name prm) (param_in prm) cause)
           | Inr v \<Rightarrow> Inr v))"
  by (simp add: get_parameter_def get_parameter_body_def get_param_or_header_def
      ValidationErrorWrapper_def Let_def split: option.splits sum.splits)

lemma get_parameter_error_class:
  "get_parameter self ps prm = Inl e \<Longrightarrow> isinstance e C_ParameterValidationError"
  by (auto simp: get_parameter_cases split: option.splits sum.splits if_splits)

lemma store_lookup:
  "map_of (getattr (setattr v l (AList.update n x (getattr v l))) l') n' =
     (if l' = l \<and> n' = n then Some x else map_of (getattr v l') n')"
  by (cases l; cases l') (simp_all add: update_conv')

lemma params_loop_total: "\<exists>st'. params_loop self ps ds st = Inr st'"
proof (induction ds arbitrary: st)
  case Nil
  show ?case by simp
next
  case (Cons d ds)
  show ?case
  proof (cases "get_parameter self ps d")
    case (Inl e)
    with Cons get_parameter_error_class[OF Inl] show ?thesis by (simp add: Let_def)
  next
    case (Inr v)
    with Cons show ?thesis by (simp add: Let_def)
  qed
qed

lemma params_loop_validated:
  "params_loop self ps ds st = Inr st' \<Longrightarrow>
   map_of (getattr (st_validated st') l) n =
     (if (n, l) \<in> st_seen st then map_of (getattr (st_validated st) l) n
      else (case find (\<lambda>d. param_name d = n \<and> param_in d = l) ds of
              None \<Rightarrow> map_of (getattr (st_validated st) l) n
            | Some p \<Rightarrow>
                (case get_parameter self ps p of
                   Inr v \<Rightarrow> Some v
                 | Inl e \<Rightarrow> map_of (getattr (st_validated st) l) n)))"
proof (induction ds arbitrary: st)
  case Nil
  then show ?case by simp
next
  case (Cons d ds)
  show ?case
  proof (cases "(param_name d, param_in d) \<in> st_seen st")
    case True
    with Cons.prems have "params_loop self ps ds st = Inr st'" by (simp add: Let_def)
    from Cons.IH[OF this] True show ?thesis by (auto cong: option.case_cong sum.case_cong)
  next
    case False
    show ?thesis
    proof (cases "get_parameter self ps d")
      case (Inl e)
      let ?st1 = "st\<lparr>st_seen := insert (param_name d, param_in d) (st_seen st)\<rparr>"
      from get_parameter_error_class[OF Inl] have cls: "isinstance e C_ParameterValidationError" .
      show ?thesis
      proof (cases "isinstance e C_MissingParameter")
        case True
        with Cons.prems False Inl have "params_loop self ps ds ?st1 = Inr st'"
          by (simp add: Let_def)
        from Cons.IH[OF this] False Inl show ?thesis by (auto cong: option.case_cong sum.case_cong)
      next
        case nm: False
        with Cons.prems False Inl cls
        have "params_loop self ps ds (?st1\<lparr>st_errors := st_errors ?st1 @ [e]\<rparr>) = Inr st'"
          by (simp add: Let_def)
        from Cons.IH[OF this] False Inl show ?thesis by (auto cong: option.case_cong sum.case_cong)
      qed
    next
      case (Inr v)
      let ?st2 = "st\<lparr>st_seen := insert (param_name d, param_in d) (st_seen st),
                     st_validated := setattr (st_validated st) (param_in d)
                       (AList.update (param_name d) v (getattr (st_validated st) (param_in d)))\<rparr>"
      from Cons.prems False Inr have "params_loop self ps ds ?st2 = Inr st'"
        by (simp add: Let_def)
      from Cons.IH[OF this] False Inr show ?thesis by (auto simp: store_lookup cong: option.case_cong sum.case_cong)
    qed
  qed
qed

lemma governing_seen:
  assumes "(param_name d, param_in d) \<in> seen"
  shows "(\<exists>p. find (\<lambda>x. param_name x = param_name p \<and> param_in x = param_in p) (d # ds) = Some p
            \<and> (param_name p, param_in p) \<notin> seen \<and> R p)
     \<longleftrightarrow> (\<exists>p. find (\<lambda>x. param_name x = param_name p \<and> param_in x = param_in p) ds = Some p
            \<and> (param_name p, param_in p) \<notin> seen \<and> R p)"
proof
  assume "\<exists>p. find (\<lambda>x. param_name x = param_name p \<and> param_in x = param_in p) (d # ds) = Some p
            \<and> (param_name p, param_in p) \<notin> seen \<and> R p"
  then obtain p where p: "find (\<lambda>x. param_name x = param_name p \<and> param_in x = param_in p) (d # ds) = Some p"
    "(param_name p, param_in p) \<notin> seen" "R p" by blast
  from p(2) assms have "\<not> (param_name d = param_name p \<and> param_in d = param_in p)" by auto
  with p(1) have "find (\<lambda>x. param_name x = param_name p \<and> param_in x = param_in p) ds = Some p"
    by (auto split: if_splits)
  with p(2,3) show "\<exists>p. find (\<lambda>x. param_name x = param_name p \<and> param_in x = param_in p) ds = Some p
            \<and> (param_name p, param_in p) \<notin> seen \<and> R p" by blast
next
  assume "\<exists>p. find (\<lambda>x. param_name x = param_name p \<and> param_in x = param_in p) ds = Some p
            \<and> (param_name p, param_in p) \<notin> seen \<and> R p"
  then obtain p where p: "find (\<lambda>x. param_name x = param_name p \<and> param_in x = param_in p) ds = Some p"
    "(param_name p, param_in p) \<notin> seen" "R p" by blast
  from p(2) assms have "\<not> (param_name d = param_name p \<and> param_in d = param_in p)" by auto
  with p(1) have "find (\<lambda>x. param_name x = param_name p \<and> param_in x = param_in p) (d # ds) = Some p"
    by (auto split: if_splits)
  with p(2,3) show "\<exists>p. find (\<lambda>x. param_name x = param_name p \<and> param_in x = param_in p) (d # ds) = Some p
            \<and> (param_name p, param_in p) \<notin> seen \<and> R p" by blast
qed

lemma governing_new:
  assumes "(param_name d, param_in d) \<notin> seen"
  shows "(\<exists>p. find (\<lambda>x. param_name x = param_name p \<and> param_in x = param_in p) (d # ds) = Some p
            \<and> (param_name p, param_in p) \<notin> seen \<and> R p)
     \<longleftrightarrow> R d \<or>
         (\<exists>p. find (\<lambda>x. param_name x = param_name p \<and> param_in x = param_in p) ds = Some p
            \<and> (param_name p, param_in p) \<notin> insert (param_name d, param_in d) seen \<and> R p)"
proof
  assume "\<exists>p. find (\<lambda>x. param_name x = param_name p \<and> param_in x = param_in p) (d # ds) = Some p
            \<and> (param_name p, param_in p) \<notin> seen \<and> R p"
  then obtain p where p: "find (\<lambda>x. param_name x = param_name p \<and> param_in x = param_in p) (d # ds) = Some p"
    "(param_name p, param_in p) \<notin> seen" "R p" by blast
  show "R d \<or>
         (\<exists>p. find (\<lambda>x. param_name x = param_name p \<and> param_in x = param_in p) ds = Some p
            \<and> (param_name p, param_in p) \<notin> insert (param_name d, param_in d) seen \<and> R p)"
  proof (cases "param_name d = param_name p \<and> param_in d = param_in p")
    case True
    with p(1) have "p = d" by simp
    with p(3) show ?thesis by simp
  next
    case False
    with p(1) have "find (\<lambda>x. param_name x = param_name p \<and> param_in x = param_in p) ds = Some p"
      by (auto split: if_splits)
    moreover from False p(2)
    have "(param_name p, param_in p) \<notin> insert (param_name d, param_in d) seen" by auto
    ultimately show ?thesis using p(3) by blast
  qed
next
  assume a: "R d \<or>
         (\<exists>p. find (\<lambda>x. param_name x = param_name p \<and> param_in x = param_in p) ds = Some p
            \<and> (param_name p, param_in p) \<notin> insert (param_name d, param_in d) seen \<and> R p)"
  show "\<exists>p. find (\<lambda>x. param_name x = param_name p \<and> param_in x = param_in p) (d # ds) = Some p
            \<and> (param_name p, param_in p) \<notin> seen \<and> R p"
  proof (cases "R d")
    case True
    have "find (\<lambda>x. param_name x = param_name d \<and> param_in x = param_in d) (d # ds) = Some d"
      by simp
    with True assms show ?thesis by blast
  next
    case False
    with a obtain p where p: "find (\<lambda>x. param_name x = param_name p \<and> param_in x = param_in p) ds = Some p"
      "(param_name p, param_in p) \<notin> insert (param_name d, param_in d) seen" "R p" by blast
    from p(2) have ne: "\<not> (param_name d = param_name p \<and> param_in d = param_in p)" by auto
    with p(1) have "find (\<lambda>x. param_name x = param_name p \<and> param_in x = param_in p) (d # ds) = Some p"
      by (auto split: if_splits)
    moreover from p(2) have "(param_name p, param_in p) \<notin> seen" by simp
    ultimately show ?thesis using p(3) by blast
  qed
qed

lemma params_loop_errors:
  "params_loop self ps ds st = Inr st' \<Longrightarrow>
   e \<in> set (st_errors st') \<longleftrightarrow>
     e \<in> set (st_errors st) \<or>
     (\<exists>p. find (\<lambda>x. param_name x = param_name p \<and> param_in x = param_in p) ds = Some p
        \<and> (param_name p, param_in p) \<notin> st_seen st
        \<and> (get_parameter self ps p = Inl e \<and> \<not> isinstance e C_MissingParameter))"
proof (induction ds arbitrary: st)
  case Nil
  then show ?case by simp
next
  case (Cons d ds)
  let ?R = "\<lambda>p. get_parameter self ps p = Inl e \<and> \<not> isinstance e C_MissingParameter"
  show ?case
  proof (cases "(param_name d, param_in d) \<in> st_seen st")
    case True
    with Cons.prems have "params_loop self ps ds st = Inr st'" by (simp add: Let_def)
    from Cons.IH[OF this] show ?thesis
      unfolding governing_seen[of d "st_seen st" ds ?R, OF True] .
  next
    case False
    let ?st1 = "st\<lparr>st_seen := insert (param_name d, param_in d) (st_seen st)\<rparr>"
    note step = governing_new[of d "st_seen st" ds ?R, OF False]
    show ?thesis
    proof (cases "get_parameter self ps d")
      case (Inl x)
      from get_parameter_error_class[OF Inl] have cls: "isinstance x C_ParameterValidationError" .
      show ?thesis
      proof (cases "isinstance x C_MissingParameter")
        case True
        with Cons.prems False Inl have "params_loop self ps ds ?st1 = Inr st'"
          by (simp add: Let_def)
        from Cons.IH[OF this] have
          "e \<in> set (st_errors st') \<longleftrightarrow> e \<in> set (st_errors st) \<or>
             (\<exists>p. find (\<lambda>x. param_name x = param_name p \<and> param_in x = param_in p) ds = Some p
                \<and> (param_name p, param_in p) \<notin> insert (param_name d, param_in d) (st_seen st)
                \<and> ?R p)" by simp
        moreover from Inl True have "\<not> ?R d" by auto
        ultimately show ?thesis unfolding step by blast
      next
        case nm: False
        with Cons.prems False Inl cls
        have "params_loop self ps ds (?st1\<lparr>st_errors := st_errors ?st1 @ [x]\<rparr>) = Inr st'"
          by (simp add: Let_def)
        from Cons.IH[OF this] have
          "e \<in> set (st_errors st') \<longleftrightarrow> (e \<in> set (st_errors st) \<or> e = x) \<or>
             (\<exists>p. find (\<lambda>x. param_name x = param_name p \<and> param_in x = param_in p) ds = Some p
                \<and> (param_name p, param_in p) \<notin> insert (param_name d, param_in d) (st_seen st)
                \<and> ?R p)" by auto
        moreover from Inl nm have "?R d \<longleftrightarrow> e = x" by auto
        ultimately show ?thesis unfolding step by blast
      qed
    next
      case (Inr v)
      let ?st2 = "st\<lparr>st_seen := insert (param_name d, param_in d) (st_seen st),
                     st_validated := setattr (st_validated st) (param_in d)
                       (AList.update (param_name d) v (getattr (st_validated st) (param_in d)))\<rparr>"
      from Cons.prems False Inr have "params_loop self ps ds ?st2 = Inr st'"
        by (simp add: Let_def)
      from Cons.IH[OF this] have
          "e \<in> set (st_errors st') \<longleftrightarrow> e \<in> set (st_errors st) \<or>
             (\<exists>p. find (\<lambda>x. param_name x = param_name p \<and> param_in x = param_in p) ds = Some p
                \<and> (param_name p, param_in p) \<notin> insert (param_name d, param_in d) (st_seen st)
                \<and> ?R p)" by simp
      moreover from Inr have "\<not> ?R d" by auto
      ultimately show ?thesis unfolding step by blast
    qed
  qed
qed

lemma get_parameters_result:
  obtains st' where
    "params_loop self ps (node_parameters operation @ node_parameters pth)
            \<lparr>st_errors = [], st_seen = {}, st_validated = Parameters\<rparr> = Inr st'"
    "params_or_ParametersError (get_parameters self ps operation pth) =
         Inr (st_validated st', st_errors st')"
    "get_parameters self ps operation pth =
         (if st_errors st' \<noteq> [] then Inl (ParametersError (st_errors st') (st_validated st'))
          else Inr (st_validated st'))"
proof -
  obtain st' where st: "params_loop self ps (node_parameters operation @ node_parameters pth)
            \<lparr>st_errors = [], st_seen = {}, st_validated = Parameters\<rparr> = Inr st'"
    using params_loop_total by blast
  then have "params_or_ParametersError (get_parameters self ps operation pth) =
         Inr (st_validated st', st_errors st')"
    and "get_parameters self ps operation pth =
         (if st_errors st' \<noteq> [] then Inl (ParametersError (st_errors st') (st_validated st'))
          else Inr (st_validated st'))"
    by (auto simp: get_parameters_def)
  with st that show ?thesis by blast
qed

lemma Parameters_empty: "map_of (getattr Parameters l) n = None"
  by (cases l) (simp_all add: Parameters_def)

lemma get_parameters_validated:
  assumes "params_or_ParametersError (get_parameters self ps operation pth) = Inr (v, errs)"
  shows "map_of (getattr v l) n =
     (case find (\<lambda>d. param_name d = n \<and> param_in d = l)
             (node_parameters operation @ node_parameters pth) of
        None \<Rightarrow> None
      | Some p \<Rightarrow> (case get_parameter self ps p of Inr x \<Rightarrow> Some x | Inl e \<Rightarrow> None))"
proof -
  obtain st' where st: "params_loop self ps (node_parameters operation @ node_parameters pth)
            \<lparr>st_errors = [], st_seen = {}, st_validated = Parameters\<rparr> = Inr st'"
    and r: "params_or_ParametersError (get_parameters self ps operation pth) =
         Inr (st_validated st', st_errors st')"
    and gp: "get_parameters self ps operation pth =
         (if st_errors st' \<noteq> [] then Inl (ParametersError (st_errors st') (st_validated st'))
          else Inr (st_validated st'))"
    by (rule get_parameters_result[of self ps operation pth])
  from r assms have v: "v = st_validated st'" by simp
  show ?thesis
    unfolding v using params_loop_validated[OF st, of l n]
    by (simp add: Parameters_empty cong: option.case_cong sum.case_cong)
qed

lemma get_parameters_errors:
  assumes "params_or_ParametersError (get_parameters self ps operation pth) = Inr (v, errs)"
  shows "e \<in> set errs \<longleftrightarrow>
     (\<exists>p. find (\<lambda>x. param_name x = param_name p \<and> param_in x = param_in p)
             (node_parameters operation @ node_parameters pth) = Some p
        \<and> get_parameter self ps p = Inl e \<and> \<not> isinstance e C_MissingParameter)"
proof -
  obtain st' where st: "params_loop self ps (node_parameters operation @ node_parameters pth)
            \<lparr>st_errors = [], st_seen = {}, st_validated = Parameters\<rparr> = Inr st'"
    and r: "params_or_ParametersError (get_parameters self ps operation pth) =
         Inr (st_validated st', st_errors st')"
    and gp: "get_parameters self ps operation pth =
         (if st_errors st' \<noteq> [] then Inl (ParametersError (st_errors st') (st_validated st'))
          else Inr (st_validated st'))"
    by (rule get_parameters_result[of self ps operation pth])
  from r assms have v: "errs = st_errors st'" by simp
  show ?thesis
    unfolding v using params_loop_errors[OF st, of e] by simp
qed

lemma get_parameter_error_identity:
  assumes "get_parameter self ps p = Inl e"
  shows "e = MissingParameter (param_name p) (param_in p)
       \<or> e = MissingRequiredParameter (param_name p) (param_in p)
       \<or> (\<exists>c. e = InvalidParameter (param_name p) (param_in p) c)"
  using assms by (auto simp: get_parameter_cases split: option.splits sum.splits if_splits)

lemma get_security_value_error:
  "get_security_value self ps n = Inl e \<Longrightarrow> e = SecurityProviderError"
  by (auto simp: get_security_value_def split: option.splits)

lemma security_values_error:
  "security_values self ps names d = Inl e \<Longrightarrow> e = SecurityProviderError"
  by (induction names arbitrary: d) (auto split: sum.splits dest: get_security_value_error)

lemma security_loop_error:
  "security_loop self ps alts schemes = Inl e \<Longrightarrow> \<exists>s. e = SecurityNotFound s"
proof (induction alts arbitrary: schemes)
  case Nil
  then show ?case by auto
next
  case (Cons a alts)
  then show ?case
    by (auto simp: Let_def split: sum.splits if_splits dest: security_values_error)
qed

lemma get_security_error:
  "get_security self ps operation = Inl e \<Longrightarrow> \<exists>s. e = SecurityNotFound s"
proof -
  assume a: "get_security self ps operation = Inl e"
  then obtain e0 where b: "get_security_body self ps operation = Inl e0"
    by (auto simp: get_security_def ValidationErrorWrapper_def split: sum.splits)
  then obtain s where "e0 = SecurityNotFound s"
    by (auto simp: get_security_body_def split: option.splits if_splits dest: security_loop_error)
  with a b show ?thesis
    by (auto simp: get_security_def ValidationErrorWrapper_def)
qed

lemma security_values_cong:
  "security_values (self\<lparr>param_pipeline := pp, convert_content_schema_value := cc\<rparr>) ps names d
     = security_values self ps names d"
  by (induction names arbitrary: d)
    (simp_all add: get_security_value_def cong: sum.case_cong option.case_cong)

lemma security_loop_cong:
  "security_loop (self\<lparr>param_pipeline := pp, convert_content_schema_value := cc\<rparr>) ps alts schemes
     = security_loop self ps alts schemes"
  by (induction alts arbitrary: schemes)
    (simp_all add: security_values_cong Let_def cong: sum.case_cong if_cong)

lemma get_security_cong:
  "get_security (self\<lparr>param_pipeline := pp, convert_content_schema_value := cc\<rparr>) ps operation
     = get_security self ps operation"
  by (simp add: get_security_def get_security_body_def effective_security_def security_loop_cong
      Let_def cong: option.case_cong if_cong)

lemma security_values_ok:
  assumes "\<forall>n\<in>set names. \<exists>v. get_security_value self ps n = Inr v"
  shows "\<exists>d'. security_values self ps names d = Inr d'
     \<and> (\<forall>n. map_of d' n =
           (if n \<in> set names
            then (case get_security_value self ps n of Inr v \<Rightarrow> Some v | Inl e \<Rightarrow> None)
            else map_of d n))"
  using assms
proof (induction names arbitrary: d)
  case Nil
  then show ?case by simp
next
  case (Cons a names)
  from Cons.prems obtain v where v: "get_security_value self ps a = Inr v" by auto
  from Cons.prems have rest: "\<forall>n\<in>set names. \<exists>v. get_security_value self ps n = Inr v" by simp
  from Cons.IH[OF rest, of "AList.update a v d"] obtain d' where
    d': "security_values self ps names (AList.update a v d) = Inr d'"
    and m: "\<forall>n. map_of d' n =
           (if n \<in> set names
            then (case get_security_value self ps n of Inr v \<Rightarrow> Some v | Inl e \<Rightarrow> None)
            else map_of (AList.update a v d) n)" by blast
  have "security_values self ps (a # names) d = Inr d'" using v d' by simp
  moreover have "\<forall>n. map_of d' n =
           (if n \<in> set (a # names)
            then (case get_security_value self ps n of Inr v \<Rightarrow> Some v | Inl e \<Rightarrow> None)
            else map_of d n)"
    using m v by (auto simp: update_conv')
  ultimately show ?case by blast
qed

lemma security_values_fail:
  assumes "\<exists>n\<in>set names. get_security_value self ps n = Inl SecurityProviderError"
  shows "security_values self ps names d = Inl SecurityProviderError"
  using assms
proof (induction names arbitrary: d)
  case Nil
  then show ?case by simp
next
  case (Cons a names)
  show ?case
  proof (cases "get_security_value self ps a")
    case (Inl e)
    with get_security_value_error[OF Inl] show ?thesis by simp
  next
    case (Inr v)
    with Cons.prems have "\<exists>n\<in>set names. get_security_value self ps n = Inl SecurityProviderError"
      by auto
    from Cons.IH[OF this] Inr show ?thesis by simp
  qed
qed

lemma security_loop_skip:
  assumes "\<forall>b\<in>set pre. \<exists>n\<in>set (map fst b).
             get_security_value self ps n = Inl SecurityProviderError"
  shows "security_loop self ps (pre @ rest) schemes =
         security_loop self ps rest (schemes @ map (map fst) pre)"
  using assms
proof (induction pre arbitrary: schemes)
  case Nil
  then show ?case by simp
next
  case (Cons b pre)
  from Cons.prems have "\<exists>n\<in>set (map fst b).
       get_security_value self ps n = Inl SecurityProviderError" by simp
  from security_values_fail[OF this]
  have f: "security_values self ps (map fst b) [] = Inl SecurityProviderError" .
  from Cons.prems have "\<forall>b\<in>set pre. \<exists>n\<in>set (map fst b).
             get_security_value self ps n = Inl SecurityProviderError" by simp
  from Cons.IH[OF this] f show ?case by (simp add: Let_def)
qed

lemma get_security_loop:
  "get_security self ps operation =
     (case effective_security self operation of
        None \<Rightarrow> Inr []
      | Some alternatives \<Rightarrow>
          if alternatives = [] then Inr [] else security_loop self ps alternatives [])"
proof (cases "get_security_body self ps operation")
  case (Inl e)
  then obtain s where "e = SecurityNotFound s"
    by (auto simp: get_security_body_def split: option.splits if_splits dest: security_loop_error)
  with Inl show ?thesis
    by (simp add: get_security_def ValidationErrorWrapper_def get_security_body_def)
next
  case (Inr d)
  then show ?thesis
    by (simp add: get_security_def ValidationErrorWrapper_def get_security_body_def)
qed

lemma get_body_missing:
  assumes "node_requestBody operation = Some rb"
    and "body0 = None \<or> body0 = Some []"
  shows "get_body self body0 mimetype operation =
     (if body_required rb then Inl MissingRequiredRequestBody else Inl MissingRequestBody)"
  using assms
  by (auto simp: get_body_def get_body_body_def get_body_value_def ValidationErrorWrapper_def)

lemma get_body_caught:
  "\<exists>b errs. body_or_RequestBodyError (get_body self body0 mimetype operation) = Inr (b, errs)"
  by (auto simp: get_body_def get_body_body_def get_body_value_def ValidationErrorWrapper_def
      body_or_RequestBodyError_def Let_def split: option.splits sum.splits)

text \<open>
  The method resolution order of every class, for any fuel that covers the height of the
  class in the hierarchy, and the path finder each class of the two modules resolves with.
\<close>

lemma mro_BaseValidator:
  "mro (Suc n) BaseValidator =
     Some [BaseValidator]"
  by (subst mro.simps(2))
    (simp del: mro.simps add: bases_def base_classes_def  eval_nat_numeral Let_def)

lemma mro_BaseAPICallValidator:
  "mro (Suc (Suc n)) BaseAPICallValidator =
     Some [BaseAPICallValidator, BaseValidator]"
  by (subst mro.simps(2))
    (simp del: mro.simps add: bases_def base_classes_def mro_BaseValidator eval_nat_numeral Let_def)

lemma mro_BaseWebhookValidator:
  "mro (Suc (Suc n)) BaseWebhookValidator =
     Some [BaseWebhookValidator, BaseValidator]"
  by (subst mro.simps(2))
    (simp del: mro.simps add: bases_def base_classes_def mro_BaseValidator eval_nat_numeral Let_def)

lemma mro_BaseUnmarshaller:
  "mro (Suc (Suc n)) BaseUnmarshaller =
     Some [BaseUnmarshaller, BaseValidator]"
  by (subst mro.simps(2))
    (simp del: mro.simps add: bases_def base_classes_def mro_BaseValidator eval_nat_numeral Let_def)

lemma mro_BaseRequestValidator:
  "mro (Suc (Suc n)) BaseRequestValidator =
     Some [BaseRequestValidator, BaseValidator]"
  by (subst mro.simps(2))
    (simp del: mro.simps add: bases_def base_classes_def mro_BaseValidator eval_nat_numeral Let_def)

lemma mro_BaseAPICallRequestValidator:
  "mro (Suc (Suc (Suc n))) BaseAPICallRequestValidator =
     Some [BaseAPICallRequestValidator, BaseRequestValidator, BaseAPICallValidator,
          BaseValidator]"
  by (subst mro.simps(2))
    (simp del: mro.simps add: bases_def base_classes_def mro_BaseRequestValidator mro_BaseAPICallValidator eval_nat_numeral Let_def)

lemma mro_BaseWebhookRequestValidator:
  "mro (Suc (Suc (Suc n))) BaseWebhookRequestValidator =
     Some [BaseWebhookRequestValidator, BaseRequestValidator, BaseWebhookValidator,
          BaseValidator]"
  by (subst mro.simps(2))
    (simp del: mro.simps add: bases_def base_classes_def mro_BaseRequestValidator mro_BaseWebhookValidator eval_nat_numeral Let_def)

lemma mro_BaseRequestUnmarshaller:
  "mro (Suc (Suc (Suc n))) BaseRequestUnmarshaller =
     Some [BaseRequestUnmarshaller, BaseRequestValidator, BaseUnmarshaller, BaseValidator]"
  by (subst mro.simps(2))
    (simp del: mro.simps add: bases_def base_classes_def mro_BaseRequestValidator mro_BaseUnmarshaller eval_nat_numeral Let_def)

lemma mro_APICallRequestBodyValidator:
  "mro (Suc (Suc (Suc (Suc n)))) APICallRequestBodyValidator =
     Some [APICallRequestBodyValidator, BaseAPICallRequestValidator, BaseRequestValidator,
          BaseAPICallValidator, BaseValidator]"
  by (subst mro.simps(2))
    (simp del: mro.simps add: bases_def base_classes_def mro_BaseAPICallRequestValidator eval_nat_numeral Let_def)

lemma mro_APICallRequestParametersValidator:
  "mro (Suc (Suc (Suc (Suc n)))) APICallRequestParametersValidator =
     Some [APICallRequestParametersValidator, BaseAPICallRequestValidator,
          BaseRequestValidator, BaseAPICallValidator, BaseValidator]"
  by (subst mro.simps(2))
    (simp del: mro.simps add: bases_def base_classes_def mro_BaseAPICallRequestValidator eval_nat_numeral Let_def)

lemma mro_APICallRequestSecurityValidator:
  "mro (Suc (Suc (Suc (Suc n)))) APICallRequestSecurityValidator =
     Some [APICallRequestSecurityValidator, BaseAPICallRequestValidator, BaseRequestValidator,
          BaseAPICallValidator, BaseValidator]"
  by (subst mro.simps(2))
    (simp del: mro.simps add: bases_def base_classes_def mro_BaseAPICallRequestValidator eval_nat_numeral Let_def)

lemma mro_APICallRequestValidator:
  "mro (Suc (Suc (Suc (Suc n)))) APICallRequestValidator =
     Some [APICallRequestValidator, BaseAPICallRequestValidator, BaseRequestValidator,
          BaseAPICallValidator, BaseValidator]"
  by (subst mro.simps(2))
    (simp del: mro.simps add: bases_def base_classes_def mro_BaseAPICallRequestValidator eval_nat_numeral Let_def)

lemma mro_WebhookRequestValidator:
  "mro (Suc (Suc (Suc (Suc n)))) WebhookRequestValidator =
     Some [WebhookRequestValidator, BaseWebhookRequestValidator, BaseRequestValidator,
          BaseWebhookValidator, BaseValidator]"
  by (subst mro.simps(2))
    (simp del: mro.simps add: bases_def base_classes_def mro_BaseWebhookRequestValidator eval_nat_numeral Let_def)

lemma mro_WebhookRequestBodyValidator:
  "mro (Suc (Suc (Suc (Suc n)))) WebhookRequestBodyValidator =
     Some [WebhookRequestBodyValidator, BaseWebhookRequestValidator, BaseRequestValidator,
          BaseWebhookValidator, BaseValidator]"
  by (subst mro.simps(2))
    (simp del: mro.simps add: bases_def base_classes_def mro_BaseWebhookRequestValidator eval_nat_numeral Let_def)

lemma mro_WebhookRequestParametersValidator:
  "mro (Suc (Suc (Suc (Suc n)))) WebhookRequestParametersValidator =
     Some [WebhookRequestParametersValidator, BaseWebhookRequestValidator,
          BaseRequestValidator, BaseWebhookValidator, BaseValidator]"
  by (subst mro.simps(2))
    (simp del: mro.simps add: bases_def base_classes_def mro_BaseWebhookRequestValidator eval_nat_numeral Let_def)

lemma mro_WebhookRequestSecurityValidator:
  "mro (Suc (Suc (Suc (Suc n)))) WebhookRequestSecurityValidator =
     Some [WebhookRequestSecurityValidator, BaseWebhookRequestValidator, BaseRequestValidator,
          BaseWebhookValidator, BaseValidator]"
  by (subst mro.simps(2))
    (simp del: mro.simps add: bases_def base_classes_def mro_BaseWebhookRequestValidator eval_nat_numeral Let_def)

lemma mro_BaseAPICallRequestUnmarshaller:
  "mro (Suc (Suc (Suc (Suc n)))) BaseAPICallRequestUnmarshaller =
     Some [BaseAPICallRequestUnmarshaller, BaseRequestUnmarshaller, BaseRequestValidator,
          BaseUnmarshaller, BaseValidator]"
  by (subst mro.simps(2))
    (simp del: mro.simps add: bases_def base_classes_def mro_BaseRequestUnmarshaller eval_nat_numeral Let_def)

lemma mro_BaseWebhookRequestUnmarshaller:
  "mro (Suc (Suc (Suc (Suc n)))) BaseWebhookRequestUnmarshaller =
     Some [BaseWebhookRequestUnmarshaller, BaseRequestUnmarshaller, BaseRequestValidator,
          BaseUnmarshaller, BaseValidator]"
  by (subst mro.simps(2))
    (simp del: mro.simps add: bases_def base_classes_def mro_BaseRequestUnmarshaller eval_nat_numeral Let_def)

lemma mro_V30RequestBodyValidator:
  "mro (Suc (Suc (Suc (Suc (Suc n))))) V30RequestBodyValidator =
     Some [V30RequestBodyValidator, APICallRequestBodyValidator, BaseAPICallRequestValidator,
          BaseRequestValidator, BaseAPICallValidator, BaseValidator]"
  by (subst mro.simps(2))
    (simp del: mro.simps add: bases_def base_classes_def mro_APICallRequestBodyValidator eval_nat_numeral Let_def)

lemma mro_V30RequestParametersValidator:
  "mro (Suc (Suc (Suc (Suc (Suc n))))) V30RequestParametersValidator =
     Some [V30RequestParametersValidator, APICallRequestParametersValidator,
          BaseAPICallRequestValidator, BaseRequestValidator, BaseAPICallValidator,
          BaseValidator]"
  by (subst mro.simps(2))
    (simp del: mro.simps add: bases_def base_classes_def mro_APICallRequestParametersValidator eval_nat_numeral Let_def)

lemma mro_V30RequestSecurityValidator:
  "mro (Suc (Suc (Suc (Suc (Suc n))))) V30RequestSecurityValidator =
     Some [V30RequestSecurityValidator, APICallRequestSecurityValidator,
          BaseAPICallRequestValidator, BaseRequestValidator, BaseAPICallValidator,
          BaseValidator]"
  by (subst mro.simps(2))
    (simp del: mro.simps add: bases_def base_classes_def mro_APICallRequestSecurityValidator eval_nat_numeral Let_def)

lemma mro_V30RequestValidator:
  "mro (Suc (Suc (Suc (Suc (Suc n))))) V30RequestValidator =
     Some [V30RequestValidator, APICallRequestValidator, BaseAPICallRequestValidator,
          BaseRequestValidator, BaseAPICallValidator, BaseValidator]"
  by (subst mro.simps(2))
    (simp del: mro.simps add: bases_def base_classes_def mro_APICallRequestValidator eval_nat_numeral Let_def)

lemma mro_V31RequestBodyValidator:
  "mro (Suc (Suc (Suc (Suc (Suc n))))) V31RequestBodyValidator =
     Some [V31RequestBodyValidator, APICallRequestBodyValidator, BaseAPICallRequestValidator,
          BaseRequestValidator, BaseAPICallValidator, BaseValidator]"
  by (subst mro.simps(2))
    (simp del: mro.simps add: bases_def base_classes_def mro_APICallRequestBodyValidator eval_nat_numeral Let_def)

lemma mro_V31RequestParametersValidator:
  "mro (Suc (Suc (Suc (Suc (Suc n))))) V31RequestParametersValidator =
     Some [V31RequestParametersValidator, APICallRequestParametersValidator,
          BaseAPICallRequestValidator, BaseRequestValidator, BaseAPICallValidator,
          BaseValidator]"
  by (subst mro.simps(2))
    (simp del: mro.simps add: bases_def base_classes_def mro_APICallRequestParametersValidator eval_nat_numeral Let_def)

lemma mro_V31RequestSecurityValidator:
  "mro (Suc (Suc (Suc (Suc (Suc n))))) V31RequestSecurityValidator =
     Some [V31RequestSecurityValidator, APICallRequestSecurityValidator,
          BaseAPICallRequestValidator, BaseRequestValidator, BaseAPICallValidator,
          BaseValidator]"
  by (subst mro.simps(2))
    (simp del: mro.simps add: bases_def base_classes_def mro_APICallRequestSecurityValidator eval_nat_numeral Let_def)

lemma mro_V31RequestValidator:
  "mro (Suc (Suc (Suc (Suc (Suc n))))) V31RequestValidator =
     Some [V31RequestValidator, APICallRequestValidator, BaseAPICallRequestValidator,
          BaseRequestValidator, BaseAPICallValidator, BaseValidator]"
  by (subst mro.simps(2))
    (simp del: mro.simps add: bases_def base_classes_def mro_APICallRequestValidator eval_nat_numeral Let_def)

lemma mro_V31WebhookRequestBodyValidator:
  "mro (Suc (Suc (Suc (Suc (Suc n))))) V31WebhookRequestBodyValidator =
     Some [V31WebhookRequestBodyValidator, WebhookRequestBodyValidator,
          BaseWebhookRequestValidator, BaseRequestValidator, BaseWebhookValidator,
          BaseValidator]"
  by (subst mro.simps(2))
    (simp del: mro.simps add: bases_def base_classes_def mro_WebhookRequestBodyValidator eval_nat_numeral Let_def)

lemma mro_V31WebhookRequestParametersValidator:
  "mro (Suc (Suc (Suc (Suc (Suc n))))) V31WebhookRequestParametersValidator =
     Some [V31WebhookRequestParametersValidator, WebhookRequestParametersValidator,
          BaseWebhookRequestValidator, BaseRequestValidator, BaseWebhookValidator,
          BaseValidator]"
  by (subst mro.simps(2))
    (simp del: mro.simps add: bases_def base_classes_def mro_WebhookRequestParametersValidator eval_nat_numeral Let_def)

lemma mro_V31WebhookRequestSecurityValidator:
  "mro (Suc (Suc (Suc (Suc (Suc n))))) V31WebhookRequestSecurityValidator =
     Some [V31WebhookRequestSecurityValidator, WebhookRequestSecurityValidator,
          BaseWebhookRequestValidator, BaseRequestValidator, BaseWebhookValidator,
          BaseValidator]"
  by (subst mro.simps(2))
    (simp del: mro.simps add: bases_def base_classes_def mro_WebhookRequestSecurityValidator eval_nat_numeral Let_def)

lemma mro_V31WebhookRequestValidator:
  "mro (Suc (Suc (Suc (Suc (Suc n))))) V31WebhookRequestValidator =
     Some [V31WebhookRequestValidator, WebhookRequestValidator, BaseWebhookRequestValidator,
          BaseRequestValidator, BaseWebhookValidator, BaseValidator]"
  by (subst mro.simps(2))
    (simp del: mro.simps add: bases_def base_classes_def mro_WebhookRequestValidator eval_nat_numeral Let_def)

lemma mro_APICallRequestUnmarshaller:
  "mro (Suc (Suc (Suc (Suc (Suc n))))) APICallRequestUnmarshaller =
     Some [APICallRequestUnmarshaller, APICallRequestValidator, BaseAPICallRequestValidator,
          BaseAPICallRequestUnmarshaller, BaseRequestUnmarshaller, BaseRequestValidator,
          BaseAPICallValidator, BaseUnmarshaller, BaseValidator]"
  by (subst mro.simps(2))
    (simp del: mro.simps add: bases_def base_classes_def mro_APICallRequestValidator mro_BaseAPICallRequestUnmarshaller eval_nat_numeral Let_def)

lemma mro_APICallRequestBodyUnmarshaller:
  "mro (Suc (Suc (Suc (Suc (Suc n))))) APICallRequestBodyUnmarshaller =
     Some [APICallRequestBodyUnmarshaller, APICallRequestValidator,
          BaseAPICallRequestValidator, BaseAPICallRequestUnmarshaller, BaseRequestUnmarshaller,
          BaseRequestValidator, BaseAPICallValidator, BaseUnmarshaller, BaseValidator]"
  by (subst mro.simps(2))
    (simp del: mro.simps add: bases_def base_classes_def mro_APICallRequestValidator mro_BaseAPICallRequestUnmarshaller eval_nat_numeral Let_def)

lemma mro_APICallRequestParametersUnmarshaller:
  "mro (Suc (Suc (Suc (Suc (Suc n))))) APICallRequestParametersUnmarshaller =
     Some [APICallRequestParametersUnmarshaller, APICallRequestValidator,
          BaseAPICallRequestValidator, BaseAPICallRequestUnmarshaller, BaseRequestUnmarshaller,
          BaseRequestValidator, BaseAPICallValidator, BaseUnmarshaller, BaseValidator]"
  by (subst mro.simps(2))
    (simp del: mro.simps add: bases_def base_classes_def mro_APICallRequestValidator mro_BaseAPICallRequestUnmarshaller eval_nat_numeral Let_def)

lemma mro_APICallRequestSecurityUnmarshaller:
  "mro (Suc (Suc (Suc (Suc (Suc n))))) APICallRequestSecurityUnmarshaller =
     Some [APICallRequestSecurityUnmarshaller, APICallRequestValidator,
          BaseAPICallRequestValidator, BaseAPICallRequestUnmarshaller, BaseRequestUnmarshaller,
          BaseRequestValidator, BaseAPICallValidator, BaseUnmarshaller, BaseValidator]"
  by (subst mro.simps(2))
    (simp del: mro.simps add: bases_def base_classes_def mro_APICallRequestValidator mro_BaseAPICallRequestUnmarshaller eval_nat_numeral Let_def)

lemma mro_WebhookRequestUnmarshaller:
  "mro (Suc (Suc (Suc (Suc (Suc n))))) WebhookRequestUnmarshaller =
     Some [WebhookRequestUnmarshaller, WebhookRequestValidator, BaseWebhookRequestValidator,
          BaseWebhookRequestUnmarshaller, BaseRequestUnmarshaller, BaseRequestValidator,
          BaseWebhookValidator, BaseUnmarshaller, BaseValidator]"
  by (subst mro.simps(2))
    (simp del: mro.simps add: bases_def base_classes_def mro_WebhookRequestValidator mro_BaseWebhookRequestUnmarshaller eval_nat_numeral Let_def)

lemma mro_WebhookRequestBodyUnmarshaller:
  "mro (Suc (Suc (Suc (Suc (Suc n))))) WebhookRequestBodyUnmarshaller =
     Some [WebhookRequestBodyUnmarshaller, WebhookRequestValidator,
          BaseWebhookRequestValidator, BaseWebhookRequestUnmarshaller, BaseRequestUnmarshaller,
          BaseRequestValidator, BaseWebhookValidator, BaseUnmarshaller, BaseValidator]"
  by (subst mro.simps(2))
    (simp del: mro.simps add: bases_def base_classes_def mro_WebhookRequestValidator mro_BaseWebhookRequestUnmarshaller eval_nat_numeral Let_def)

lemma mro_WebhookRequestParametersUnmarshaller:
  "mro (Suc (Suc (Suc (Suc (Suc n))))) WebhookRequestParametersUnmarshaller =
     Some [WebhookRequestParametersUnmarshaller, WebhookRequestValidator,
          BaseWebhookRequestValidator, BaseWebhookRequestUnmarshaller, BaseRequestUnmarshaller,
          BaseRequestValidator, BaseWebhookValidator, BaseUnmarshaller, BaseValidator]"
  by (subst mro.simps(2))
    (simp del: mro.simps add: bases_def base_classes_def mro_WebhookRequestValidator mro_BaseWebhookRequestUnmarshaller eval_nat_numeral Let_def)

lemma mro_WebhookRequestSecuritysUnmarshaller:
  "mro (Suc (Suc (Suc (Suc (Suc n))))) WebhookRequestSecuritysUnmarshaller =
     Some [WebhookRequestSecuritysUnmarshaller, WebhookRequestValidator,
          BaseWebhookRequestValidator, BaseWebhookRequestUnmarshaller, BaseRequestUnmarshaller,
          BaseRequestValidator, BaseWebhookValidator, BaseUnmarshaller, BaseValidator]"
  by (subst mro.simps(2))
    (simp del: mro.simps add: bases_def base_classes_def mro_WebhookRequestValidator mro_BaseWebhookRequestUnmarshaller eval_nat_numeral Let_def)

lemma mro_V30RequestBodyUnmarshaller:
  "mro (Suc (Suc (Suc (Suc (Suc (Suc n)))))) V30RequestBodyUnmarshaller =
     Some [V30RequestBodyUnmarshaller, V30RequestBodyValidator, APICallRequestBodyValidator,
          APICallRequestBodyUnmarshaller, APICallRequestValidator, BaseAPICallRequestValidator,
          BaseAPICallRequestUnmarshaller, BaseRequestUnmarshaller, BaseRequestValidator,
          BaseAPICallValidator, BaseUnmarshaller, BaseValidator]"
  by (subst mro.simps(2))
    (simp del: mro.simps add: bases_def base_classes_def mro_V30RequestBodyValidator mro_APICallRequestBodyUnmarshaller eval_nat_numeral Let_def)

lemma mro_V30RequestParametersUnmarshaller:
  "mro (Suc (Suc (Suc (Suc (Suc (Suc n)))))) V30RequestParametersUnmarshaller =
     Some [V30RequestParametersUnmarshaller, V30RequestParametersValidator,
          APICallRequestParametersValidator, APICallRequestParametersUnmarshaller,
          APICallRequestValidator, BaseAPICallRequestValidator, BaseAPICallRequestUnmarshaller,
          BaseRequestUnmarshaller, BaseRequestValidator, BaseAPICallValidator,
          BaseUnmarshaller, BaseValidator]"
  by (subst mro.simps(2))
    (simp del: mro.simps add: bases_def base_classes_def mro_V30RequestParametersValidator mro_APICallRequestParametersUnmarshaller eval_nat_numeral Let_def)

lemma mro_V30RequestSecurityUnmarshaller:
  "mro (Suc (Suc (Suc (Suc (Suc (Suc n)))))) V30RequestSecurityUnmarshaller =
     Some [V30RequestSecurityUnmarshaller, V30RequestSecurityValidator,
          APICallRequestSecurityValidator, APICallRequestSecurityUnmarshaller,
          APICallRequestValidator, BaseAPICallRequestValidator, BaseAPICallRequestUnmarshaller,
          BaseRequestUnmarshaller, BaseRequestValidator, BaseAPICallValidator,
          BaseUnmarshaller, BaseValidator]"
  by (subst mro.simps(2))
    (simp del: mro.simps add: bases_def base_classes_def mro_V30RequestSecurityValidator mro_APICallRequestSecurityUnmarshaller eval_nat_numeral Let_def)

lemma mro_V30RequestUnmarshaller:
  "mro (Suc (Suc (Suc (Suc (Suc (Suc n)))))) V30RequestUnmarshaller =
     Some [V30RequestUnmarshaller, V30RequestValidator, APICallRequestUnmarshaller,
          APICallRequestValidator, BaseAPICallRequestValidator, BaseAPICallRequestUnmarshaller,
          BaseRequestUnmarshaller, BaseRequestValidator, BaseAPICallValidator,
          BaseUnmarshaller, BaseValidator]"
  by (subst mro.simps(2))
    (simp del: mro.simps add: bases_def base_classes_def mro_V30RequestValidator mro_APICallRequestUnmarshaller eval_nat_numeral Let_def)

lemma mro_V31RequestBodyUnmarshaller:
  "mro (Suc (Suc (Suc (Suc (Suc (Suc n)))))) V31RequestBodyUnmarshaller =
     Some [V31RequestBodyUnmarshaller, V31RequestBodyValidator, APICallRequestBodyValidator,
          APICallRequestBodyUnmarshaller, APICallRequestValidator, BaseAPICallRequestValidator,
          BaseAPICallRequestUnmarshaller, BaseRequestUnmarshaller, BaseRequestValidator,
          BaseAPICallValidator, BaseUnmarshaller, BaseValidator]"
  by (subst mro.simps(2))
    (simp del: mro.simps add: bases_def base_classes_def mro_V31RequestBodyValidator mro_APICallRequestBodyUnmarshaller eval_nat_numeral Let_def)

lemma mro_V31RequestParametersUnmarshaller:
  "mro (Suc (Suc (Suc (Suc (Suc (Suc n)))))) V31RequestParametersUnmarshaller =
     Some [V31RequestParametersUnmarshaller, V31RequestParametersValidator,
          APICallRequestParametersValidator, APICallRequestParametersUnmarshaller,
          APICallRequestValidator, BaseAPICallRequestValidator, BaseAPICallRequestUnmarshaller,
          BaseRequestUnmarshaller, BaseRequestValidator, BaseAPICallValidator,
          BaseUnmarshaller, BaseValidator]"
  by (subst mro.simps(2))
    (simp del: mro.simps add: bases_def base_classes_def mro_V31RequestParametersValidator mro_APICallRequestParametersUnmarshaller eval_nat_numeral Let_def)

lemma mro_V31RequestSecurityUnmarshaller:
  "mro (Suc (Suc (Suc (Suc (Suc (Suc n)))))) V31RequestSecurityUnmarshaller =
     Some [V31RequestSecurityUnmarshaller, V31RequestSecurityValidator,
          APICallRequestSecurityValidator, APICallRequestSecurityUnmarshaller,
          APICallRequestValidator, BaseAPICallRequestValidator, BaseAPICallRequestUnmarshaller,
          BaseRequestUnmarshaller, BaseRequestValidator, BaseAPICallValidator,
          BaseUnmarshaller, BaseValidator]"
  by (subst mro.simps(2))
    (simp del: mro.simps add: bases_def base_classes_def mro_V31RequestSecurityValidator mro_APICallRequestSecurityUnmarshaller eval_nat_numeral Let_def)

lemma mro_V31RequestUnmarshaller:
  "mro (Suc (Suc (Suc (Suc (Suc (Suc n)))))) V31RequestUnmarshaller =
     Some [V31RequestUnmarshaller, V31RequestValidator, APICallRequestUnmarshaller,
          APICallRequestValidator, BaseAPICallRequestValidator, BaseAPICallRequestUnmarshaller,
          BaseRequestUnmarshaller, BaseRequestValidator, BaseAPICallValidator,
          BaseUnmarshaller, BaseValidator]"
  by (subst mro.simps(2))
    (simp del: mro.simps add: bases_def base_classes_def mro_V31RequestValidator mro_APICallRequestUnmarshaller eval_nat_numeral Let_def)

lemma mro_V31WebhookRequestBodyUnmarshaller:
  "mro (Suc (Suc (Suc (Suc (Suc (Suc n)))))) V31WebhookRequestBodyUnmarshaller =
     Some [V31WebhookRequestBodyUnmarshaller, V31WebhookRequestBodyValidator,
          WebhookRequestBodyValidator, WebhookRequestBodyUnmarshaller, WebhookRequestValidator,
          BaseWebhookRequestValidator, BaseWebhookRequestUnmarshaller, BaseRequestUnmarshaller,
          BaseRequestValidator, BaseWebhookValidator, BaseUnmarshaller, BaseValidator]"
  by (subst mro.simps(2))
    (simp del: mro.simps add: bases_def base_classes_def mro_V31WebhookRequestBodyValidator mro_WebhookRequestBodyUnmarshaller eval_nat_numeral Let_def)

lemma mro_V31WebhookRequestParametersUnmarshaller:
  "mro (Suc (Suc (Suc (Suc (Suc (Suc n)))))) V31WebhookRequestParametersUnmarshaller =
     Some [V31WebhookRequestParametersUnmarshaller, V31WebhookRequestParametersValidator,
          WebhookRequestParametersValidator, WebhookRequestParametersUnmarshaller,
          WebhookRequestValidator, BaseWebhookRequestValidator, BaseWebhookRequestUnmarshaller,
          BaseRequestUnmarshaller, BaseRequestValidator, BaseWebhookValidator,
          BaseUnmarshaller, BaseValidator]"
  by (subst mro.simps(2))
    (simp del: mro.simps add: bases_def base_classes_def mro_V31WebhookRequestParametersValidator mro_WebhookRequestParametersUnmarshaller eval_nat_numeral Let_def)

lemma mro_V31WebhookRequestSecurityUnmarshaller:
  "mro (Suc (Suc (Suc (Suc (Suc (Suc n)))))) V31WebhookRequestSecurityUnmarshaller =
     Some [V31WebhookRequestSecurityUnmarshaller, V31WebhookRequestSecurityValidator,
          WebhookRequestSecurityValidator, WebhookRequestSecuritysUnmarshaller,
          WebhookRequestValidator, BaseWebhookRequestValidator, BaseWebhookRequestUnmarshaller,
          BaseRequestUnmarshaller, BaseRequestValidator, BaseWebhookValidator,
          BaseUnmarshaller, BaseValidator]"
  by (subst mro.simps(2))
    (simp del: mro.simps add: bases_def base_classes_def mro_V31WebhookRequestSecurityValidator mro_WebhookRequestSecuritysUnmarshaller eval_nat_numeral Let_def)

lemma mro_V31WebhookRequestUnmarshaller:
  "mro (Suc (Suc (Suc (Suc (Suc (Suc n)))))) V31WebhookRequestUnmarshaller =
     Some [V31WebhookRequestUnmarshaller, V31WebhookRequestValidator,
          WebhookRequestUnmarshaller, WebhookRequestValidator, BaseWebhookRequestValidator,
          BaseWebhookRequestUnmarshaller, BaseRequestUnmarshaller, BaseRequestValidator,
          BaseWebhookValidator, BaseUnmarshaller, BaseValidator]"
  by (subst mro.simps(2))
    (simp del: mro.simps add: bases_def base_classes_def mro_V31WebhookRequestValidator mro_WebhookRequestUnmarshaller eval_nat_numeral Let_def)

lemma find_path_of_class_simps:
  "find_path_of_class BaseRequestValidator = None"
  "find_path_of_class BaseAPICallRequestValidator = Some APICallPathFinder"
  "find_path_of_class BaseWebhookRequestValidator = Some WebhookPathFinder"
  "find_path_of_class APICallRequestBodyValidator = Some APICallPathFinder"
  "find_path_of_class APICallRequestParametersValidator = Some APICallPathFinder"
  "find_path_of_class APICallRequestSecurityValidator = Some APICallPathFinder"
  "find_path_of_class APICallRequestValidator = Some APICallPathFinder"
  "find_path_of_class WebhookRequestValidator = Some WebhookPathFinder"
  "find_path_of_class WebhookRequestBodyValidator = Some WebhookPathFinder"
  "find_path_of_class WebhookRequestParametersValidator = Some WebhookPathFinder"
  "find_path_of_class WebhookRequestSecurityValidator = Some WebhookPathFinder"
  "find_path_of_class V30RequestBodyValidator = Some APICallPathFinder"
  "find_path_of_class V30RequestParametersValidator = Some APICallPathFinder"
  "find_path_of_class V30RequestSecurityValidator = Some APICallPathFinder"
  "find_path_of_class V30RequestValidator = Some APICallPathFinder"
  "find_path_of_class V31RequestBodyValidator = Some APICallPathFinder"
  "find_path_of_class V31RequestParametersValidator = Some APICallPathFinder"
  "find_path_of_class V31RequestSecurityValidator = Some APICallPathFinder"
  "find_path_of_class V31RequestValidator = Some APICallPathFinder"
  "find_path_of_class V31WebhookRequestBodyValidator = Some WebhookPathFinder"
  "find_path_of_class V31WebhookRequestParametersValidator = Some WebhookPathFinder"
  "find_path_of_class V31WebhookRequestSecurityValidator = Some WebhookPathFinder"
  "find_path_of_class V31WebhookRequestValidator = Some WebhookPathFinder"
  "find_path_of_class BaseRequestUnmarshaller = None"
  "find_path_of_class BaseAPICallRequestUnmarshaller = None"
  "find_path_of_class BaseWebhookRequestUnmarshaller = None"
  "find_path_of_class APICallRequestUnmarshaller = Some APICallPathFinder"
  "find_path_of_class APICallRequestBodyUnmarshaller = Some APICallPathFinder"
  "find_path_of_class APICallRequestParametersUnmarshaller = Some APICallPathFinder"
  "find_path_of_class APICallRequestSecurityUnmarshaller = Some APICallPathFinder"
  "find_path_of_class WebhookRequestUnmarshaller = Some WebhookPathFinder"
  "find_path_of_class WebhookRequestBodyUnmarshaller = Some WebhookPathFinder"
  "find_path_of_class WebhookRequestParametersUnmarshaller = Some WebhookPathFinder"
  "find_path_of_class WebhookRequestSecuritysUnmarshaller = Some WebhookPathFinder"
  "find_path_of_class V30RequestBodyUnmarshaller = Some APICallPathFinder"
  "find_path_of_class V30RequestParametersUnmarshaller = Some APICallPathFinder"
  "find_path_of_class V30RequestSecurityUnmarshaller = Some APICallPathFinder"
  "find_path_of_class V30RequestUnmarshaller = Some APICallPathFinder"
  "find_path_of_class V31RequestBodyUnmarshaller = Some APICallPathFinder"
  "find_path_of_class V31RequestParametersUnmarshaller = Some APICallPathFinder"
  "find_path_of_class V31RequestSecurityUnmarshaller = Some APICallPathFinder"
  "find_path_of_class V31RequestUnmarshaller = Some APICallPathFinder"
  "find_path_of_class V31WebhookRequestBodyUnmarshaller = Some WebhookPathFinder"
  "find_path_of_class V31WebhookRequestParametersUnmarshaller = Some WebhookPathFinder"
  "find_path_of_class V31WebhookRequestSecurityUnmarshaller = Some WebhookPathFinder"
  "find_path_of_class V31WebhookRequestUnmarshaller = Some WebhookPathFinder"
  by (simp_all del: mro.simps add: find_path_of_class_def eval_nat_numeral
      mro_BaseRequestValidator mro_BaseAPICallRequestValidator
      mro_BaseWebhookRequestValidator mro_APICallRequestBodyValidator
      mro_APICallRequestParametersValidator mro_APICallRequestSecurityValidator
      mro_APICallRequestValidator mro_WebhookRequestValidator
      mro_WebhookRequestBodyValidator mro_WebhookRequestParametersValidator
      mro_WebhookRequestSecurityValidator mro_V30RequestBodyValidator
      mro_V30RequestParametersValidator mro_V30RequestSecurityValidator
      mro_V30RequestValidator mro_V31RequestBodyValidator mro_V31RequestParametersValidator
      mro_V31RequestSecurityValidator mro_V31RequestValidator
      mro_V31WebhookRequestBodyValidator mro_V31WebhookRequestParametersValidator
      mro_V31WebhookRequestSecurityValidator mro_V31WebhookRequestValidator
      mro_BaseRequestUnmarshaller mro_BaseAPICallRequestUnmarshaller
      mro_BaseWebhookRequestUnmarshaller mro_APICallRequestUnmarshaller
      mro_APICallRequestBodyUnmarshaller mro_APICallRequestParametersUnmarshaller
      mro_APICallRequestSecurityUnmarshaller mro_WebhookRequestUnmarshaller
      mro_WebhookRequestBodyUnmarshaller mro_WebhookRequestParametersUnmarshaller
      mro_WebhookRequestSecuritysUnmarshaller mro_V30RequestBodyUnmarshaller
      mro_V30RequestParametersUnmarshaller mro_V30RequestSecurityUnmarshaller
      mro_V30RequestUnmarshaller mro_V31RequestBodyUnmarshaller
      mro_V31RequestParametersUnmarshaller mro_V31RequestSecurityUnmarshaller
      mro_V31RequestUnmarshaller mro_V31WebhookRequestBodyUnmarshaller
      mro_V31WebhookRequestParametersUnmarshaller mro_V31WebhookRequestSecurityUnmarshaller
      mro_V31WebhookRequestUnmarshaller)

text \<open>The definitions a concrete input is evaluated with.\<close>

lemmas ex_defs = example_validator_def example_request_def example_param_def example_node_def
  example_found_def example_pipeline_def example_provider_def

lemmas stage_defs = get_parameters_def get_parameter_cases get_security_def get_security_body_def
  effective_security_def get_body_def get_body_body_def get_body_value_def
  ValidationErrorWrapper_def Parameters_def get_security_value_def Let_def

lemmas entry_defs = APICallRequestValidator_iter_errors_def
  APICallRequestParametersValidator_iter_errors_def
  APICallRequestUnmarshaller_unmarshal_def APICallRequestParametersUnmarshaller_unmarshal_def
  unmarshal_with_def set_path_parameters_def
  BaseRequestValidator_iter_errors_def BaseRequestValidator_iter_parameters_errors_def
  BaseRequestUnmarshaller_unmarshal_def BaseRequestUnmarshaller_unmarshal_parameters_def
  then_iter_def yield_except_def body_or_RequestBodyError_def

subsection \<open>Missing parameters\<close>

text \<open>
  C1, as amended. Take a declared descriptor that is the first with its (name, location)
  identity in the order \<^verbatim>\<open>_get_parameters\<close> iterates (the descriptors of its
  \<^verbatim>\<open>operation\<close> argument, then those of its \<^verbatim>\<open>path\<close> argument), and a request
  whose mapping for that location has no entry under the name. Parameter resolution never
  raises anything but \<^verbatim>\<open>ParametersError\<close>; with \<open>required\<close> true it raises it,
  and the error list contains \<^verbatim>\<open>MissingRequiredParameter\<close> for that name and
  location; with \<open>required\<close> false the validated parameters have no entry under that
  name and location, and the error list has no error for them. A descriptor that a
  former one with the same identity shadows is skipped, whatever its \<open>required\<close>.
\<close>

theorem missing_parameter_of_governing_descriptor:
  assumes "find (\<lambda>d. param_name d = param_name prm \<and> param_in d = param_in prm)
             (node_parameters operation @ node_parameters pth) = Some prm"
    and "map_of (getattr ps (param_in prm)) (param_name prm) = None"
  shows "\<exists>v errs. params_or_ParametersError (get_parameters self ps operation pth) = Inr (v, errs)
     \<and> (if param_required prm
        then get_parameters self ps operation pth = Inl (ParametersError errs v)
           \<and> MissingRequiredParameter (param_name prm) (param_in prm) \<in> set errs
        else map_of (getattr v (param_in prm)) (param_name prm) = None
           \<and> MissingRequiredParameter (param_name prm) (param_in prm) \<notin> set errs
           \<and> MissingParameter (param_name prm) (param_in prm) \<notin> set errs
           \<and> (\<forall>c. InvalidParameter (param_name prm) (param_in prm) c \<notin> set errs))"
proof -
  obtain st' where st: "params_loop self ps (node_parameters operation @ node_parameters pth)
            \<lparr>st_errors = [], st_seen = {}, st_validated = Parameters\<rparr> = Inr st'"
    and res: "params_or_ParametersError (get_parameters self ps operation pth) =
         Inr (st_validated st', st_errors st')"
    and gp: "get_parameters self ps operation pth =
         (if st_errors st' \<noteq> [] then Inl (ParametersError (st_errors st') (st_validated st'))
          else Inr (st_validated st'))"
    by (rule get_parameters_result[of self ps operation pth])
  let ?v = "st_validated st'" and ?errs = "st_errors st'"
  let ?n = "param_name prm" and ?l = "param_in prm"
  show ?thesis
  proof (cases "param_required prm")
    case True
    with assms(2) have g: "get_parameter self ps prm = Inl (MissingRequiredParameter ?n ?l)"
      by (simp add: get_parameter_cases)
    have "MissingRequiredParameter ?n ?l \<in> set ?errs"
      unfolding get_parameters_errors[OF res] using assms(1) g by auto
    moreover from this have "?errs \<noteq> []" by auto
    ultimately show ?thesis using res gp True by auto
  next
    case False
    with assms(2) have g: "get_parameter self ps prm = Inl (MissingParameter ?n ?l)"
      by (simp add: get_parameter_cases)
    have noentry: "map_of (getattr ?v ?l) ?n = None"
      unfolding get_parameters_validated[OF res] using assms(1) g by simp
    have none: "e \<notin> set ?errs"
      if e: "e = MissingRequiredParameter ?n ?l \<or> e = MissingParameter ?n ?l
             \<or> (\<exists>c. e = InvalidParameter ?n ?l c)" for e
    proof
      assume "e \<in> set ?errs"
      then obtain p where p: "find (\<lambda>x. param_name x = param_name p \<and> param_in x = param_in p)
             (node_parameters operation @ node_parameters pth) = Some p"
        "get_parameter self ps p = Inl e" "\<not> isinstance e C_MissingParameter"
        unfolding get_parameters_errors[OF res] by blast
      from get_parameter_error_identity[OF p(2)] e
      have np: "param_name p = ?n" and lp: "param_in p = ?l" by auto
      from p(1)[unfolded np lp] assms(1) have "Some p = Some prm" by (rule trans[OF sym])
      then have "p = prm" by (rule Option.option.inject[THEN iffD1])
      with p(2) g have "e = MissingParameter ?n ?l" by simp
      with p(3) show False by simp
    qed
    from none[of "MissingRequiredParameter ?n ?l"] none[of "MissingParameter ?n ?l"]
      none noentry res False
    show ?thesis by auto
  qed
qed

text \<open>
  The statement about every declared descriptor fails on a shadowed one: the operation
  declares \<open>foo\<close> in the query as optional, the path item declares it as required, and
  the request has no \<open>foo\<close>. The required descriptor is declared and its name is
  absent, and yet no error is recorded.
\<close>

theorem shadowed_required_descriptor_counterexample:
  "example_param ''foo'' True ''string'' \<in>
     set (node_parameters (example_node [example_param ''foo'' False ''string''] None None) @
          node_parameters (example_node [example_param ''foo'' True ''string''] None None))
   \<and> param_required (example_param ''foo'' True ''string'')
   \<and> map_of (getattr (req_parameters (example_request [] [] None))
         (param_in (example_param ''foo'' True ''string'')))
         (param_name (example_param ''foo'' True ''string'')) = None
   \<and> params_or_ParametersError
        (get_parameters (example_validator None [] (Inl KeyError))
           (req_parameters (example_request [] [] None))
           (example_node [example_param ''foo'' False ''string''] None None)
           (example_node [example_param ''foo'' True ''string''] None None)) =
       Inr (Parameters, [])"
  by (simp add: ex_defs stage_defs)

text \<open>
  The amended statement at a concrete input: the operation declares a required \<open>a\<close>,
  the path item an optional \<open>b\<close>, and the request has neither.
\<close>

theorem missing_parameter_of_governing_descriptor_witness:
  "\<exists>v errs.
     params_or_ParametersError
       (get_parameters (example_validator None [] (Inl KeyError))
          (req_parameters (example_request [] [] None))
          (example_node [example_param ''a'' True ''string''] None None)
          (example_node [example_param ''b'' False ''string''] None None)) = Inr (v, errs)
     \<and> MissingRequiredParameter ''a'' In_query \<in> set errs
     \<and> map_of (getattr v In_query) ''b'' = None
     \<and> MissingParameter ''b'' In_query \<notin> set errs"
proof -
  let ?self = "example_validator None [] (Inl KeyError)"
  let ?ps = "req_parameters (example_request [] [] None)"
  let ?a = "example_param ''a'' True ''string''" and ?b = "example_param ''b'' False ''string''"
  let ?op = "example_node [?a] None None" and ?pth = "example_node [?b] None None"
  have a1: "find (\<lambda>d. param_name d = param_name ?a \<and> param_in d = param_in ?a)
              (node_parameters ?op @ node_parameters ?pth) = Some ?a"
    by (simp add: example_param_def example_node_def)
  have a2: "map_of (getattr ?ps (param_in ?a)) (param_name ?a) = None"
    by (simp add: example_param_def example_request_def)
  have b1: "find (\<lambda>d. param_name d = param_name ?b \<and> param_in d = param_in ?b)
              (node_parameters ?op @ node_parameters ?pth) = Some ?b"
    by (simp add: example_param_def example_node_def)
  have b2: "map_of (getattr ?ps (param_in ?b)) (param_name ?b) = None"
    by (simp add: example_param_def example_request_def)
  from missing_parameter_of_governing_descriptor [OF a1 a2, of ?self]
  obtain v errs where r: "params_or_ParametersError (get_parameters ?self ?ps ?op ?pth) = Inr (v, errs)"
    and a: "MissingRequiredParameter ''a'' In_query \<in> set errs"
    by (auto simp: example_param_def)
  from missing_parameter_of_governing_descriptor [OF b1 b2, of ?self]
  obtain v' errs' where r': "params_or_ParametersError (get_parameters ?self ?ps ?op ?pth) = Inr (v', errs')"
    and b: "map_of (getattr v' In_query) ''b'' = None" "MissingParameter ''b'' In_query \<notin> set errs'"
    by (auto simp: example_param_def)
  from r r' have "v' = v" "errs' = errs" by simp_all
  with r a b show ?thesis by blast
qed

subsection \<open>Partial results of parameter resolution\<close>

text \<open>
  C2. When security resolution succeeds and \<^verbatim>\<open>_get_parameters\<close> ends with the errors
  \<open>errs\<close> and the partially built parameters \<open>v\<close>, then \<open>errs\<close> is not empty,
  \<^verbatim>\<open>_unmarshal\<close> returns a result that carries \<open>v\<close> as its parameters and whose
  errors start with \<open>errs\<close>, and \<open>v\<close> holds exactly the parameters that resolved: it
  has the value \<open>x\<close> under a name and location if and only if the first descriptor
  declared with that name and location resolved to \<open>x\<close>. So it has no entry for a
  parameter whose descriptor failed extraction or validation.
\<close>

theorem partial_parameters_retained:
  assumes "get_security self (req_parameters request) operation = Inr sec"
    and "get_parameters self (req_parameters request) operation pth =
           Inl (ParametersError errs v)"
  shows "errs \<noteq> []
    \<and> (\<exists>b body_errors.
          BaseRequestUnmarshaller_unmarshal self request operation pth =
            Inr \<lparr>errors = errs @ body_errors, body = b, parameters = Some v,
                 security = Some sec\<rparr>)
    \<and> (\<forall>n l x. map_of (getattr v l) n = Some x \<longleftrightarrow>
          (\<exists>p. find (\<lambda>d. param_name d = n \<and> param_in d = l)
                  (node_parameters operation @ node_parameters pth) = Some p
             \<and> get_parameter self (req_parameters request) p = Inr x))
    \<and> (\<forall>p e. find (\<lambda>d. param_name d = param_name p \<and> param_in d = param_in p)
                  (node_parameters operation @ node_parameters pth) = Some p
             \<and> get_parameter self (req_parameters request) p = Inl e
          \<longrightarrow> map_of (getattr v (param_in p)) (param_name p) = None)"
proof -
  let ?ps = "req_parameters request"
  from assms(2) have res: "params_or_ParametersError (get_parameters self ?ps operation pth) =
      Inr (v, errs)" by simp
  obtain st' where st: "params_loop self ?ps (node_parameters operation @ node_parameters pth)
            \<lparr>st_errors = [], st_seen = {}, st_validated = Parameters\<rparr> = Inr st'"
    and r: "params_or_ParametersError (get_parameters self ?ps operation pth) =
         Inr (st_validated st', st_errors st')"
    and gp: "get_parameters self ?ps operation pth =
         (if st_errors st' \<noteq> [] then Inl (ParametersError (st_errors st') (st_validated st'))
          else Inr (st_validated st'))"
    by (rule get_parameters_result[of self ?ps operation pth])
  have ne: "errs \<noteq> []"
  proof (cases "st_errors st' = []")
    case True
    with gp assms(2) show ?thesis by simp
  next
    case False
    with gp assms(2) show ?thesis by simp
  qed
  obtain b body_errors where
    bd: "body_or_RequestBodyError (get_body self (req_body request) (req_mimetype request)
           operation) = Inr (b, body_errors)"
    using get_body_caught[of self "req_body request" "req_mimetype request" operation] by blast
  have full: "\<exists>b body_errors. BaseRequestUnmarshaller_unmarshal self request operation pth =
            Inr \<lparr>errors = errs @ body_errors, body = b, parameters = Some v,
                 security = Some sec\<rparr>"
    using assms bd by (simp add: BaseRequestUnmarshaller_unmarshal_def)
  have entries: "\<forall>n l x. map_of (getattr v l) n = Some x \<longleftrightarrow>
          (\<exists>p. find (\<lambda>d. param_name d = n \<and> param_in d = l)
                  (node_parameters operation @ node_parameters pth) = Some p
             \<and> get_parameter self ?ps p = Inr x)"
  proof (intro allI)
    fix n l x
    show "map_of (getattr v l) n = Some x \<longleftrightarrow>
          (\<exists>p. find (\<lambda>d. param_name d = n \<and> param_in d = l)
                  (node_parameters operation @ node_parameters pth) = Some p
             \<and> get_parameter self ?ps p = Inr x)"
      by (simp add: get_parameters_validated[OF res, of l n] split: option.splits sum.splits)
  qed
  have failed: "\<forall>p e. find (\<lambda>d. param_name d = param_name p \<and> param_in d = param_in p)
                  (node_parameters operation @ node_parameters pth) = Some p
             \<and> get_parameter self ?ps p = Inl e
          \<longrightarrow> map_of (getattr v (param_in p)) (param_name p) = None"
  proof (intro allI impI)
    fix p e
    assume "find (\<lambda>d. param_name d = param_name p \<and> param_in d = param_in p)
                  (node_parameters operation @ node_parameters pth) = Some p
             \<and> get_parameter self ?ps p = Inl e"
    then show "map_of (getattr v (param_in p)) (param_name p) = None"
      by (simp add: get_parameters_validated[OF res, of "param_in p" "param_name p"])
  qed
  show ?thesis
    by (intro conjI) (rule ne, rule full, rule entries, rule failed)
qed

text \<open>
  At a concrete input: a required \<open>a\<close> that is missing and an optional \<open>b\<close> that is
  present and valid.
\<close>

theorem partial_parameters_retained_witness:
  "get_security (example_validator None [] (Inl KeyError))
      (req_parameters (example_request [(''b'', ''1'')] [] None))
      (example_node [example_param ''a'' True ''integer'', example_param ''b'' False ''integer'']
         None None) = Inr []
   \<and> get_parameters (example_validator None [] (Inl KeyError))
      (req_parameters (example_request [(''b'', ''1'')] [] None))
      (example_node [example_param ''a'' True ''integer'', example_param ''b'' False ''integer'']
         None None)
      (example_node [] None None) =
       Inl (ParametersError [MissingRequiredParameter ''a'' In_query]
              (Parameters\<lparr>query := [(''b'', ''1'')]\<rparr>))
   \<and> (\<exists>b body_errors.
         BaseRequestUnmarshaller_unmarshal (example_validator None [] (Inl KeyError))
           (example_request [(''b'', ''1'')] [] None)
           (example_node
              [example_param ''a'' True ''integer'', example_param ''b'' False ''integer'']
              None None)
           (example_node [] None None) =
         Inr \<lparr>errors = [MissingRequiredParameter ''a'' In_query] @ body_errors, body = b,
              parameters = Some (Parameters\<lparr>query := [(''b'', ''1'')]\<rparr>),
              security = Some []\<rparr>)
   \<and> map_of (getattr (Parameters\<lparr>query := [(''b'', ''1'')]\<rparr>) In_query) ''b'' = Some ''1''
   \<and> map_of (getattr (Parameters\<lparr>query := [(''b'', ''1'')]\<rparr>) In_query) ''a'' = None"
proof -
  let ?self = "example_validator None [] (Inl KeyError)"
  let ?request = "example_request [(''b'', ''1'')] [] None"
  let ?op = "example_node
      [example_param ''a'' True ''integer'', example_param ''b'' False ''integer''] None None"
  let ?pth = "example_node [] None None"
  have h1: "get_security ?self (req_parameters ?request) ?op = Inr []"
    by (simp add: ex_defs stage_defs)
  have h2: "get_parameters ?self (req_parameters ?request) ?op ?pth =
       Inl (ParametersError [MissingRequiredParameter ''a'' In_query]
              (Parameters\<lparr>query := [(''b'', ''1'')]\<rparr>))"
    by (simp add: ex_defs stage_defs)
  from partial_parameters_retained [OF h1 h2]
  have "\<exists>b body_errors.
         BaseRequestUnmarshaller_unmarshal ?self ?request ?op ?pth =
         Inr \<lparr>errors = [MissingRequiredParameter ''a'' In_query] @ body_errors, body = b,
              parameters = Some (Parameters\<lparr>query := [(''b'', ''1'')]\<rparr>),
              security = Some []\<rparr>"
    by (elim conjE)
  note r = this
  let ?a = "example_param ''a'' True ''integer''" and ?b = "example_param ''b'' False ''integer''"
  have fb: "find (\<lambda>d. param_name d = ''b'' \<and> param_in d = In_query)
              (node_parameters ?op @ node_parameters ?pth) = Some ?b"
    by (simp add: example_param_def example_node_def)
  have gb: "get_parameter ?self (req_parameters ?request) ?b = Inr ''1''"
    by (simp add: ex_defs stage_defs)
  from partial_parameters_retained [OF h1 h2, THEN conjunct2, THEN conjunct2, THEN conjunct1,
      rule_format, of In_query "''b''" "''1''"] fb gb
  have eb: "map_of (getattr (Parameters\<lparr>query := [(''b'', ''1'')]\<rparr>) In_query) ''b'' = Some ''1''"
    by blast
  have fa: "find (\<lambda>d. param_name d = param_name ?a \<and> param_in d = param_in ?a)
              (node_parameters ?op @ node_parameters ?pth) = Some ?a"
    by (simp add: example_param_def example_node_def)
  have ga: "get_parameter ?self (req_parameters ?request) ?a =
              Inl (MissingRequiredParameter ''a'' In_query)"
    by (simp add: ex_defs stage_defs)
  from partial_parameters_retained [OF h1 h2, THEN conjunct2, THEN conjunct2, THEN conjunct2,
      rule_format, of ?a "MissingRequiredParameter ''a'' In_query"] fa ga
  have "map_of (getattr (Parameters\<lparr>query := [(''b'', ''1'')]\<rparr>) (param_in ?a)) (param_name ?a)
          = None"
    by blast
  then have ea: "map_of (getattr (Parameters\<lparr>query := [(''b'', ''1'')]\<rparr>) In_query) ''a'' = None"
    by (simp add: example_param_def)
  from h1 h2 r eb ea show ?thesis by (intro conjI)
qed

subsection \<open>Precedence of the operation's declarations\<close>

text \<open>
  C3. The operation declares \<open>foo\<close> in the query with the schema \<open>integer\<close>, the path
  item declares it with the schema \<open>string\<close>, and the request has \<open>foo=abc\<close>. In the
  full pipeline the operation's descriptor governs, in both modes: the value is rejected
  as not an integer. In the parameters-only pipeline the path item's descriptor governs,
  in both modes: the value is accepted as a string and there is no error. The
  parameters-only stage methods call \<^verbatim>\<open>_get_parameters(request.parameters, path,
  operation)\<close>, so the path item's descriptors come first.
\<close>

theorem parameters_only_path_level_governs:
  "APICallRequestUnmarshaller_unmarshal
     (example_validator None []
        (example_found (example_node [example_param ''foo'' False ''string''] None None)
           (example_node [example_param ''foo'' False ''integer''] None None)))
     (example_request [(''foo'', ''abc'')] [] None) =
     Inr \<lparr>errors = [InvalidParameter ''foo'' In_query ''not an integer''], body = None,
          parameters = Some Parameters, security = Some []\<rparr>
   \<and> APICallRequestParametersUnmarshaller_unmarshal
     (example_validator None []
        (example_found (example_node [example_param ''foo'' False ''string''] None None)
           (example_node [example_param ''foo'' False ''integer''] None None)))
     (example_request [(''foo'', ''abc'')] [] None) =
     Inr \<lparr>errors = [], body = None,
          parameters = Some (Parameters\<lparr>query := [(''foo'', ''abc'')]\<rparr>), security = None\<rparr>
   \<and> APICallRequestParametersValidator_iter_errors
     (example_validator None []
        (example_found (example_node [example_param ''foo'' False ''string''] None None)
           (example_node [example_param ''foo'' False ''integer''] None None)))
     (example_request [(''foo'', ''abc'')] [] None) = ([], None)
   \<and> APICallRequestValidator_iter_errors
     (example_validator None []
        (example_found (example_node [example_param ''foo'' False ''string''] None None)
           (example_node [example_param ''foo'' False ''integer''] None None)))
     (example_request [(''foo'', ''abc'')] [] None) =
       ([InvalidParameter ''foo'' In_query ''not an integer''], None)"
  by (simp add: ex_defs stage_defs entry_defs Let_def)

text \<open>
  C4. The operation declares \<open>foo\<close> in the query as required, the path item declares it
  as optional, and the request has no \<open>foo\<close>. The parameters stage of the full pipeline
  records \<^verbatim>\<open>MissingRequiredParameter\<close>, in both modes; the parameters-only pipeline
  records no error, in both modes. The two do not produce the same errors.
\<close>

theorem parameters_only_differs_from_full_stage:
  "params_or_ParametersError
     (get_parameters (example_validator None [] (Inl KeyError))
        (req_parameters (example_request [] [] None))
        (example_node [example_param ''foo'' True ''string''] None None)
        (example_node [example_param ''foo'' False ''string''] None None)) =
     Inr (Parameters, [MissingRequiredParameter ''foo'' In_query])
   \<and> APICallRequestUnmarshaller_unmarshal
     (example_validator None []
        (example_found (example_node [example_param ''foo'' False ''string''] None None)
           (example_node [example_param ''foo'' True ''string''] None None)))
     (example_request [] [] None) =
     Inr \<lparr>errors = [MissingRequiredParameter ''foo'' In_query], body = None,
          parameters = Some Parameters, security = Some []\<rparr>
   \<and> APICallRequestParametersUnmarshaller_unmarshal
     (example_validator None []
        (example_found (example_node [example_param ''foo'' False ''string''] None None)
           (example_node [example_param ''foo'' True ''string''] None None)))
     (example_request [] [] None) =
     Inr \<lparr>errors = [], body = None, parameters = Some Parameters, security = None\<rparr>
   \<and> APICallRequestValidator_iter_errors
     (example_validator None []
        (example_found (example_node [example_param ''foo'' False ''string''] None None)
           (example_node [example_param ''foo'' True ''string''] None None)))
     (example_request [] [] None) = ([MissingRequiredParameter ''foo'' In_query], None)
   \<and> APICallRequestParametersValidator_iter_errors
     (example_validator None []
        (example_found (example_node [example_param ''foo'' False ''string''] None None)
           (example_node [example_param ''foo'' True ''string''] None None)))
     (example_request [] [] None) = ([], None)"
  by (simp add: ex_defs stage_defs entry_defs)

subsection \<open>Security failure\<close>

text \<open>
  C5. When the path is found and security resolution fails on the request, its exception
  is a \<^verbatim>\<open>SecurityNotFound\<close>, \<^verbatim>\<open>APICallRequestUnmarshaller.unmarshal\<close> returns a
  result whose errors are that one exception and whose body, parameters and security are
  absent, and the error sequence of \<^verbatim>\<open>APICallRequestValidator.iter_errors\<close> is that one
  exception and ends after it. The parameter and body stages are not attempted: the
  result is the same whatever the parameter pipeline \<open>pp\<close> and the body pipeline
  \<open>cc\<close> of the validator are.
\<close>

theorem security_failure_terminal:
  assumes "find_path self request = Inr found"
    and "get_security self (req_parameters (set_path_parameters request found))
           (found_operation found) = Inl exc"
  shows "(\<exists>schemes. exc = SecurityNotFound schemes)
    \<and> APICallRequestUnmarshaller_unmarshal
         (self\<lparr>param_pipeline := pp, convert_content_schema_value := cc\<rparr>) request =
        Inr \<lparr>errors = [exc], body = None, parameters = None, security = None\<rparr>
    \<and> APICallRequestValidator_iter_errors
         (self\<lparr>param_pipeline := pp, convert_content_schema_value := cc\<rparr>) request =
        ([exc], None)"
proof -
  obtain s where s: "exc = SecurityNotFound s"
    using get_security_error[OF assms(2)] by blast
  show ?thesis
    using assms s
    by (simp add: APICallRequestUnmarshaller_unmarshal_def unmarshal_with_def
        BaseRequestUnmarshaller_unmarshal_def APICallRequestValidator_iter_errors_def
        BaseRequestValidator_iter_errors_def get_security_cong)
qed

text \<open>
  At a concrete input: the document requires \<open>api_key\<close>, read from the header
  \<open>X-Api-Key\<close>, and the request has no header.
\<close>

theorem security_failure_terminal_witness:
  "APICallRequestUnmarshaller_unmarshal
     ((example_validator (Some [[(''api_key'', [])]]) [(''api_key'', ''X-Api-Key'')]
         (example_found (example_node [] None None)
            (example_node [example_param ''a'' True ''integer''] None None)))
      \<lparr>param_pipeline := (\<lambda>prm rawv. Inl ''unused''),
       convert_content_schema_value := (\<lambda>raw_body content mimetype. Inl ''unused'')\<rparr>)
     (example_request [] [] None) =
     Inr \<lparr>errors = [SecurityNotFound [[''api_key'']]], body = None, parameters = None,
          security = None\<rparr>
   \<and> APICallRequestValidator_iter_errors
     ((example_validator (Some [[(''api_key'', [])]]) [(''api_key'', ''X-Api-Key'')]
         (example_found (example_node [] None None)
            (example_node [example_param ''a'' True ''integer''] None None)))
      \<lparr>param_pipeline := (\<lambda>prm rawv. Inl ''unused''),
       convert_content_schema_value := (\<lambda>raw_body content mimetype. Inl ''unused'')\<rparr>)
     (example_request [] [] None) = ([SecurityNotFound [[''api_key'']]], None)"
proof -
  let ?op = "example_node [example_param ''a'' True ''integer''] None None"
  let ?found = "\<lparr>found_path = example_node [] None None, found_operation = ?op,
                  found_variables = []\<rparr>"
  let ?self = "example_validator (Some [[(''api_key'', [])]]) [(''api_key'', ''X-Api-Key'')]
         (example_found (example_node [] None None) ?op)"
  let ?request = "example_request [] [] None"
  have h1: "find_path ?self ?request = Inr ?found"
    by (simp add: example_validator_def example_found_def)
  have h2: "get_security ?self (req_parameters (set_path_parameters ?request ?found))
              (found_operation ?found) = Inl (SecurityNotFound [[''api_key'']])"
    by (simp add: ex_defs stage_defs set_path_parameters_def)
  from security_failure_terminal
         [OF h1 h2, where pp = "\<lambda>prm rawv. Inl ''unused''"
            and cc = "\<lambda>raw_body content mimetype. Inl ''unused''"]
  show ?thesis by (elim conjE) (intro conjI)
qed

subsection \<open>Routing failure\<close>

text \<open>
  C6. When the path finder raises a \<^verbatim>\<open>PathError\<close> for the request, the error sequence
  of \<^verbatim>\<open>APICallRequestValidator.iter_errors\<close> is that one error and ends normally,
  \<^verbatim>\<open>validate\<close> raises it, and \<^verbatim>\<open>APICallRequestUnmarshaller.unmarshal\<close> returns a
  result whose errors are that one error and whose body, parameters and security are
  absent. The statement holds for every contract and every capability of the validator:
  nothing of the security, parameter or body stages enters the result.
\<close>

theorem path_error_terminal:
  assumes "find_path self request = Inl (PathError m)"
  shows "APICallRequestValidator_iter_errors self request = ([PathError m], None)
    \<and> validate (APICallRequestValidator_iter_errors self request) = Inl (PathError m)
    \<and> APICallRequestUnmarshaller_unmarshal self request =
        Inr \<lparr>errors = [PathError m], body = None, parameters = None, security = None\<rparr>"
  using assms
  by (simp add: APICallRequestValidator_iter_errors_def APICallRequestUnmarshaller_unmarshal_def
      unmarshal_with_def)

theorem path_error_terminal_witness:
  "find_path (example_validator None [] (Inl (PathError ''GET /nowhere'')))
       (example_request [] [] None) = Inl (PathError ''GET /nowhere'')
    \<and> APICallRequestValidator_iter_errors
         (example_validator None [] (Inl (PathError ''GET /nowhere'')))
         (example_request [] [] None) = ([PathError ''GET /nowhere''], None)
    \<and> APICallRequestUnmarshaller_unmarshal
         (example_validator None [] (Inl (PathError ''GET /nowhere'')))
         (example_request [] [] None) =
        Inr \<lparr>errors = [PathError ''GET /nowhere''], body = None, parameters = None,
             security = None\<rparr>"
proof -
  have h: "find_path (example_validator None [] (Inl (PathError ''GET /nowhere'')))
       (example_request [] [] None) = Inl (PathError ''GET /nowhere'')"
    by (simp add: example_validator_def)
  show ?thesis using h path_error_terminal [OF h] by simp
qed

subsection \<open>Security resolution\<close>

text \<open>
  C7, as amended. The effective security requirement is the operation's when the
  operation declares one, else the document's. When none is declared, or the declared one
  has no alternative, security resolution returns the empty mapping. When the requirement
  is \<open>pre @ a # post\<close>, every alternative of \<open>pre\<close> has a scheme whose provider fails
  and no provider fails on a scheme of \<open>a\<close>, it returns the mapping of the scheme names of
  \<open>a\<close> to their values, whatever \<open>post\<close> is. When the requirement has at least one
  alternative and every alternative has a scheme whose provider fails, it raises
  \<^verbatim>\<open>SecurityNotFound\<close> with the scheme names of every alternative, in order.
\<close>

theorem security_resolution:
  "effective_security self operation =
     (case node_security operation of Some s \<Rightarrow> Some s | None \<Rightarrow> spec_security self)
   \<and> (effective_security self operation = None \<or> effective_security self operation = Some []
        \<longrightarrow> get_security self ps operation = Inr [])
   \<and> (effective_security self operation = Some (pre @ a # post)
        \<and> (\<forall>b\<in>set pre. \<exists>n\<in>set (map fst b).
               get_security_value self ps n = Inl SecurityProviderError)
        \<and> (\<forall>n\<in>set (map fst a). \<exists>v. get_security_value self ps n = Inr v)
        \<longrightarrow> (\<exists>d. get_security self ps operation = Inr d
               \<and> (\<forall>n. map_of d n =
                     (if n \<in> set (map fst a)
                      then (case get_security_value self ps n of
                              Inr v \<Rightarrow> Some v | Inl e \<Rightarrow> None)
                      else None))))
   \<and> (effective_security self operation = Some alternatives \<and> alternatives \<noteq> []
        \<and> (\<forall>b\<in>set alternatives. \<exists>n\<in>set (map fst b).
               get_security_value self ps n = Inl SecurityProviderError)
        \<longrightarrow> get_security self ps operation =
              Inl (SecurityNotFound (map (map fst) alternatives)))"
proof (intro conjI impI)
  show "effective_security self operation =
     (case node_security operation of Some s \<Rightarrow> Some s | None \<Rightarrow> spec_security self)"
    by (simp add: effective_security_def Let_def split: option.splits)
next
  assume "effective_security self operation = None \<or> effective_security self operation = Some []"
  then show "get_security self ps operation = Inr []"
    by (auto simp: get_security_loop)
next
  assume h: "effective_security self operation = Some (pre @ a # post)
        \<and> (\<forall>b\<in>set pre. \<exists>n\<in>set (map fst b).
               get_security_value self ps n = Inl SecurityProviderError)
        \<and> (\<forall>n\<in>set (map fst a). \<exists>v. get_security_value self ps n = Inr v)"
  then have eff: "effective_security self operation = Some (pre @ a # post)"
    and skip: "\<forall>b\<in>set pre. \<exists>n\<in>set (map fst b).
               get_security_value self ps n = Inl SecurityProviderError"
    and ok: "\<forall>n\<in>set (map fst a). \<exists>v. get_security_value self ps n = Inr v"
    by blast+
  from security_values_ok[OF ok, of "[]"] obtain d where
    d: "security_values self ps (map fst a) [] = Inr d"
    and m: "\<forall>n. map_of d n =
           (if n \<in> set (map fst a)
            then (case get_security_value self ps n of Inr v \<Rightarrow> Some v | Inl e \<Rightarrow> None)
            else map_of [] n)" by blast
  have "get_security self ps operation = security_loop self ps (pre @ a # post) []"
    using eff by (simp add: get_security_loop)
  also have "\<dots> = security_loop self ps (a # post) ([] @ map (map fst) pre)"
    by (rule security_loop_skip[OF skip])
  also have "\<dots> = Inr d" using d by (simp add: Let_def)
  finally have "get_security self ps operation = Inr d" .
  with m show "\<exists>d. get_security self ps operation = Inr d
               \<and> (\<forall>n. map_of d n =
                     (if n \<in> set (map fst a)
                      then (case get_security_value self ps n of
                              Inr v \<Rightarrow> Some v | Inl e \<Rightarrow> None)
                      else None))" by auto
next
  assume h: "effective_security self operation = Some alternatives \<and> alternatives \<noteq> []
        \<and> (\<forall>b\<in>set alternatives. \<exists>n\<in>set (map fst b).
               get_security_value self ps n = Inl SecurityProviderError)"
  then have eff: "effective_security self operation = Some alternatives"
    and ne: "alternatives \<noteq> []"
    and skip: "\<forall>b\<in>set alternatives. \<exists>n\<in>set (map fst b).
               get_security_value self ps n = Inl SecurityProviderError"
    by blast+
  have "get_security self ps operation = security_loop self ps (alternatives @ []) []"
    using eff ne by (simp add: get_security_loop)
  also have "\<dots> = security_loop self ps [] ([] @ map (map fst) alternatives)"
    by (rule security_loop_skip[OF skip])
  finally show "get_security self ps operation =
              Inl (SecurityNotFound (map (map fst) alternatives))" by simp
qed

text \<open>
  The statement that security resolution fails whenever no alternative succeeds is false
  of a requirement with no alternative: the document requires \<open>api_key\<close>, the
  operation declares \<^verbatim>\<open>security: []\<close>, and the request carries no credential. No
  alternative of the effective requirement succeeds; the result is the empty mapping.
\<close>

theorem empty_requirement_counterexample:
  "effective_security
     (example_validator (Some [[(''api_key'', [])]]) [(''api_key'', ''X-Api-Key'')] (Inl KeyError))
     (example_node [] (Some []) None) = Some []
   \<and> get_security
     (example_validator (Some [[(''api_key'', [])]]) [(''api_key'', ''X-Api-Key'')] (Inl KeyError))
     (req_parameters (example_request [] [] None))
     (example_node [] (Some []) None) = Inr []"
  by (simp add: ex_defs stage_defs)

text \<open>
  At concrete inputs: the document requires \<open>api_key\<close> or else \<open>token\<close>, read from the
  headers \<open>X-Api-Key\<close> and \<open>Authorization\<close>. A request with the second header only is
  resolved by the second alternative; a request with no header fails with both scheme-name
  lists; an operation that declares \<^verbatim>\<open>security: []\<close> gets the empty mapping.
\<close>

theorem security_resolution_witness:
  "(\<exists>d. get_security
          (example_validator (Some [[(''api_key'', [])], [(''token'', [])]])
             [(''api_key'', ''X-Api-Key''), (''token'', ''Authorization'')] (Inl KeyError))
          (req_parameters (example_request [] [(''Authorization'', ''t'')] None))
          (example_node [] None None) = Inr d
        \<and> map_of d ''token'' = Some (Some ''t'') \<and> map_of d ''api_key'' = None)
   \<and> get_security
        (example_validator (Some [[(''api_key'', [])], [(''token'', [])]])
           [(''api_key'', ''X-Api-Key''), (''token'', ''Authorization'')] (Inl KeyError))
        (req_parameters (example_request [] [] None))
        (example_node [] None None) = Inl (SecurityNotFound [[''api_key''], [''token'']])
   \<and> get_security
        (example_validator (Some [[(''api_key'', [])], [(''token'', [])]])
           [(''api_key'', ''X-Api-Key''), (''token'', ''Authorization'')] (Inl KeyError))
        (req_parameters (example_request [] [] None))
        (example_node [] (Some []) None) = Inr []"
proof -
  let ?self = "example_validator (Some [[(''api_key'', [])], [(''token'', [])]])
             [(''api_key'', ''X-Api-Key''), (''token'', ''Authorization'')] (Inl KeyError)"
  let ?ps1 = "req_parameters (example_request [] [(''Authorization'', ''t'')] None)"
  let ?ps0 = "req_parameters (example_request [] [] None)"
  let ?op = "example_node [] None None" and ?open = "example_node [] (Some []) None"
  have v1: "get_security_value ?self ?ps1 ''api_key'' = Inl SecurityProviderError"
    "get_security_value ?self ?ps1 ''token'' = Inr (Some ''t'')"
    "get_security_value ?self ?ps0 ''api_key'' = Inl SecurityProviderError"
    "get_security_value ?self ?ps0 ''token'' = Inl SecurityProviderError"
    by (simp_all add: ex_defs get_security_value_def)
  have e1: "effective_security ?self ?op = Some ([[(''api_key'', [])]] @ [(''token'', [])] # [])"
    by (simp add: ex_defs effective_security_def)
  have first: "\<exists>d. get_security ?self ?ps1 ?op = Inr d
        \<and> map_of d ''token'' = Some (Some ''t'') \<and> map_of d ''api_key'' = None"
  proof -
    have skip: "\<forall>b\<in>set [[(''api_key'', [])]]. \<exists>n\<in>set (map fst b).
                 get_security_value ?self ?ps1 n = Inl SecurityProviderError"
      using v1 by simp
    have ok: "\<forall>n\<in>set (map fst [(''token'', [])]). \<exists>v. get_security_value ?self ?ps1 n = Inr v"
      using v1 by simp
    note third = security_resolution
        [where self = ?self and operation = ?op and ps = ?ps1 and pre = "[[(''api_key'', [])]]"
           and a = "[(''token'', [])]" and post = "[]",
         THEN conjunct2, THEN conjunct2, THEN conjunct1]
    from third e1 skip ok
    obtain d where d: "get_security ?self ?ps1 ?op = Inr d"
      and m: "\<forall>n. map_of d n =
               (if n \<in> set (map fst [(''token'', []::string list)])
                then (case get_security_value ?self ?ps1 n of Inr v \<Rightarrow> Some v | Inl e \<Rightarrow> None)
                else None)"
      by blast
    from m[rule_format, of "''token''"] m[rule_format, of "''api_key''"] v1
    have "map_of d ''token'' = Some (Some ''t'')" "map_of d ''api_key'' = None" by simp_all
    with d show ?thesis by blast
  qed
  have e0: "effective_security ?self ?op = Some [[(''api_key'', [])], [(''token'', [])]]"
    by (simp add: ex_defs effective_security_def)
  have fail: "\<forall>b\<in>set [[(''api_key'', [])], [(''token'', [])]]. \<exists>n\<in>set (map fst b).
                 get_security_value ?self ?ps0 n = Inl SecurityProviderError"
    using v1 by simp
  note fourth = security_resolution
      [where self = ?self and operation = ?op and ps = ?ps0
         and alternatives = "[[(''api_key'', [])], [(''token'', [])]]",
       THEN conjunct2, THEN conjunct2, THEN conjunct2]
  from fourth e0 fail
  have none: "get_security ?self ?ps0 ?op = Inl (SecurityNotFound [[''api_key''], [''token'']])"
    by simp
  have eo: "effective_security ?self ?open = Some []"
    by (simp add: ex_defs effective_security_def)
  note second = security_resolution
      [where self = ?self and operation = ?open and ps = ?ps0, THEN conjunct2, THEN conjunct1]
  from second eo
  have empty: "get_security ?self ?ps0 ?open = Inr []" by simp
  from first none empty show ?thesis by (intro conjI)
qed

subsection \<open>A missing body\<close>

text \<open>
  C8. When the operation declares a request body and the raw body of the request is
  absent or empty, the body stage of the unmarshal mode gives no body value and, with
  \<open>required\<close> true, the one error \<^verbatim>\<open>MissingRequiredRequestBody\<close>, with
  \<open>required\<close> false, no error. That is the outcome of \<^verbatim>\<open>_unmarshal_body\<close>; and the
  outcome of \<^verbatim>\<open>_unmarshal\<close>, whenever security resolution succeeds, has the errors of
  the parameters followed by that error or by none, and no body value.
\<close>

theorem missing_body_outcome:
  assumes "node_requestBody operation = Some rb"
    and "req_body request = None \<or> req_body request = Some []"
  shows "body_or_RequestBodyError
           (get_body self (req_body request) (req_mimetype request) operation) =
           Inr (None, if body_required rb then [MissingRequiredRequestBody] else [])
    \<and> BaseRequestUnmarshaller_unmarshal_body self request operation pth =
         Inr \<lparr>errors = (if body_required rb then [MissingRequiredRequestBody] else []),
              body = None, parameters = None, security = None\<rparr>
    \<and> (\<forall>sec.
          get_security self (req_parameters request) operation = Inr sec
          \<longrightarrow> (\<exists>v errs.
                 params_or_ParametersError
                   (get_parameters self (req_parameters request) operation pth) = Inr (v, errs)
                 \<and> BaseRequestUnmarshaller_unmarshal self request operation pth =
                     Inr \<lparr>errors = errs @ (if body_required rb
                                            then [MissingRequiredRequestBody] else []),
                          body = None, parameters = Some v, security = Some sec\<rparr>))"
proof -
  note b = get_body_missing[OF assms, of self "req_mimetype request"]
  have stage: "body_or_RequestBodyError
           (get_body self (req_body request) (req_mimetype request) operation) =
           Inr (None, if body_required rb then [MissingRequiredRequestBody] else [])"
    unfolding b by (simp add: body_or_RequestBodyError_def)
  obtain st' where
    st: "params_loop self (req_parameters request)
           (node_parameters operation @ node_parameters pth)
           \<lparr>st_errors = [], st_seen = {}, st_validated = Parameters\<rparr> = Inr st'"
    and res: "params_or_ParametersError
            (get_parameters self (req_parameters request) operation pth) =
          Inr (st_validated st', st_errors st')"
    and gp: "get_parameters self (req_parameters request) operation pth =
         (if st_errors st' \<noteq> [] then Inl (ParametersError (st_errors st') (st_validated st'))
          else Inr (st_validated st'))"
    by (rule get_parameters_result[of self "req_parameters request" operation pth])
  have part: "BaseRequestUnmarshaller_unmarshal_body self request operation pth =
         Inr \<lparr>errors = (if body_required rb then [MissingRequiredRequestBody] else []),
              body = None, parameters = None, security = None\<rparr>"
    using stage by (simp add: BaseRequestUnmarshaller_unmarshal_body_def)
  have full: "\<forall>sec.
          get_security self (req_parameters request) operation = Inr sec
          \<longrightarrow> (\<exists>v errs.
                 params_or_ParametersError
                   (get_parameters self (req_parameters request) operation pth) = Inr (v, errs)
                 \<and> BaseRequestUnmarshaller_unmarshal self request operation pth =
                     Inr \<lparr>errors = errs @ (if body_required rb
                                            then [MissingRequiredRequestBody] else []),
                          body = None, parameters = Some v, security = Some sec\<rparr>)"
  proof (intro allI impI)
    fix sec
    assume "get_security self (req_parameters request) operation = Inr sec"
    with stage res
    have "BaseRequestUnmarshaller_unmarshal self request operation pth =
            Inr \<lparr>errors = st_errors st' @ (if body_required rb
                                            then [MissingRequiredRequestBody] else []),
                 body = None, parameters = Some (st_validated st'), security = Some sec\<rparr>"
      by (simp add: BaseRequestUnmarshaller_unmarshal_def)
    with res show "\<exists>v errs.
                 params_or_ParametersError
                   (get_parameters self (req_parameters request) operation pth) = Inr (v, errs)
                 \<and> BaseRequestUnmarshaller_unmarshal self request operation pth =
                     Inr \<lparr>errors = errs @ (if body_required rb
                                            then [MissingRequiredRequestBody] else []),
                          body = None, parameters = Some v, security = Some sec\<rparr>"
      by blast
  qed
  from stage part full show ?thesis by (intro conjI)
qed

text \<open>At concrete inputs: a required body and an empty raw body; an optional body and none.\<close>

theorem missing_body_outcome_witness:
  "BaseRequestUnmarshaller_unmarshal_body (example_validator None [] (Inl KeyError))
     (example_request [] [] (Some []))
     (example_node [] None (Some \<lparr>body_required = True, body_content = ''application/json''\<rparr>))
     (example_node [] None None) =
     Inr \<lparr>errors = [MissingRequiredRequestBody], body = None, parameters = None,
          security = None\<rparr>
   \<and> BaseRequestUnmarshaller_unmarshal_body (example_validator None [] (Inl KeyError))
     (example_request [] [] None)
     (example_node [] None (Some \<lparr>body_required = False, body_content = ''application/json''\<rparr>))
     (example_node [] None None) =
     Inr \<lparr>errors = [], body = None, parameters = None, security = None\<rparr>
   \<and> BaseRequestUnmarshaller_unmarshal (example_validator None [] (Inl KeyError))
     (example_request [] [] (Some []))
     (example_node [] None (Some \<lparr>body_required = True, body_content = ''application/json''\<rparr>))
     (example_node [] None None) =
     Inr \<lparr>errors = [MissingRequiredRequestBody], body = None, parameters = Some Parameters,
          security = Some []\<rparr>"
proof -
  let ?self = "example_validator None [] (Inl KeyError)"
  let ?rb1 = "\<lparr>body_required = True, body_content = ''application/json''\<rparr>"
  let ?rb0 = "\<lparr>body_required = False, body_content = ''application/json''\<rparr>"
  have a1: "node_requestBody (example_node [] None (Some ?rb1)) = Some ?rb1"
    by (simp add: example_node_def)
  have a2: "req_body (example_request [] [] (Some [])) = None
            \<or> req_body (example_request [] [] (Some [])) = Some []"
    by (simp add: example_request_def)
  have b1: "node_requestBody (example_node [] None (Some ?rb0)) = Some ?rb0"
    by (simp add: example_node_def)
  have b2: "req_body (example_request [] [] None) = None
            \<or> req_body (example_request [] [] None) = Some []"
    by (simp add: example_request_def)
  from missing_body_outcome [OF a1 a2, of ?self "example_node [] None None"]
  have r1: "BaseRequestUnmarshaller_unmarshal_body ?self (example_request [] [] (Some []))
      (example_node [] None (Some ?rb1)) (example_node [] None None) =
     Inr \<lparr>errors = [MissingRequiredRequestBody], body = None, parameters = None,
          security = None\<rparr>"
    by simp
  from missing_body_outcome [OF b1 b2, of ?self "example_node [] None None"]
  have r0: "BaseRequestUnmarshaller_unmarshal_body ?self (example_request [] [] None)
      (example_node [] None (Some ?rb0)) (example_node [] None None) =
     Inr \<lparr>errors = [], body = None, parameters = None, security = None\<rparr>"
    by simp
  have s1: "get_security ?self (req_parameters (example_request [] [] (Some [])))
              (example_node [] None (Some ?rb1)) = Inr []"
    by (simp add: ex_defs stage_defs)
  have p1: "params_or_ParametersError
              (get_parameters ?self (req_parameters (example_request [] [] (Some [])))
                 (example_node [] None (Some ?rb1)) (example_node [] None None)) =
            Inr (Parameters, [])"
    by (simp add: ex_defs stage_defs)
  from missing_body_outcome [OF a1 a2, of ?self "example_node [] None None",
      THEN conjunct2, THEN conjunct2, rule_format, of "[]"] s1 p1
  have r2: "BaseRequestUnmarshaller_unmarshal ?self (example_request [] [] (Some []))
      (example_node [] None (Some ?rb1)) (example_node [] None None) =
     Inr \<lparr>errors = [MissingRequiredRequestBody], body = None, parameters = Some Parameters,
          security = Some []\<rparr>"
    by simp
  from r1 r0 r2 show ?thesis by (intro conjI)
qed

subsection \<open>The two modes\<close>

text \<open>
  C9. The operation declares an optional request body and the request has no body. The
  fail-fast \<^verbatim>\<open>validate\<close> raises \<^verbatim>\<open>MissingRequestBody\<close>, the one error its error
  sequence yields; \<^verbatim>\<open>unmarshal\<close> on the same request returns a result with no error.
  \<^verbatim>\<open>_unmarshal\<close> has an \<^verbatim>\<open>except MissingRequestBody\<close> clause that drops the
  exception; \<^verbatim>\<open>_iter_errors\<close> has none and yields it.
\<close>

theorem validate_reports_missing_optional_body:
  "validate (APICallRequestValidator_iter_errors
     (example_validator None []
        (example_found (example_node [] None None)
           (example_node [] None
              (Some \<lparr>body_required = False, body_content = ''application/json''\<rparr>))))
     (example_request [] [] None)) = Inl MissingRequestBody
   \<and> APICallRequestUnmarshaller_unmarshal
     (example_validator None []
        (example_found (example_node [] None None)
           (example_node [] None
              (Some \<lparr>body_required = False, body_content = ''application/json''\<rparr>))))
     (example_request [] [] None) =
     Inr \<lparr>errors = [], body = None, parameters = Some Parameters, security = Some []\<rparr>"
  by (simp add: ex_defs stage_defs entry_defs)

subsection \<open>The path finder of the API-call classes\<close>

text \<open>
  C10. Each API-call validator and unmarshaller of the two dialects, the sixteen classes
  \<^verbatim>\<open>V30Request...\<close> and \<^verbatim>\<open>V31Request...\<close>, resolves paths with the
  \<^verbatim>\<open>_find_path\<close> it inherits from \<^verbatim>\<open>BaseAPICallValidator\<close>, server-relative; each
  of the eight \<^verbatim>\<open>V31Webhook...\<close> classes resolves with the one of
  \<^verbatim>\<open>BaseWebhookValidator\<close>, webhook-relative; and among all the classes of the two
  modules the ones that resolve webhook-relative are the webhook classes and no other.
  \<^verbatim>\<open>V31RequestValidator\<close> assigns \<^verbatim>\<open>path_finder_cls = WebhookPathFinder\<close> in its
  body, as the webhook classes do; nothing reads the attribute, and the class and the
  unmarshaller that derives from it resolve server-relative like their siblings.
\<close>

theorem api_call_classes_resolve_server_relative:
  "find_path_of_class V30RequestBodyValidator = Some APICallPathFinder
   \<and> find_path_of_class V30RequestParametersValidator = Some APICallPathFinder
   \<and> find_path_of_class V30RequestSecurityValidator = Some APICallPathFinder
   \<and> find_path_of_class V30RequestValidator = Some APICallPathFinder
   \<and> find_path_of_class V31RequestBodyValidator = Some APICallPathFinder
   \<and> find_path_of_class V31RequestParametersValidator = Some APICallPathFinder
   \<and> find_path_of_class V31RequestSecurityValidator = Some APICallPathFinder
   \<and> find_path_of_class V31RequestValidator = Some APICallPathFinder
   \<and> find_path_of_class V30RequestBodyUnmarshaller = Some APICallPathFinder
   \<and> find_path_of_class V30RequestParametersUnmarshaller = Some APICallPathFinder
   \<and> find_path_of_class V30RequestSecurityUnmarshaller = Some APICallPathFinder
   \<and> find_path_of_class V30RequestUnmarshaller = Some APICallPathFinder
   \<and> find_path_of_class V31RequestBodyUnmarshaller = Some APICallPathFinder
   \<and> find_path_of_class V31RequestParametersUnmarshaller = Some APICallPathFinder
   \<and> find_path_of_class V31RequestSecurityUnmarshaller = Some APICallPathFinder
   \<and> find_path_of_class V31RequestUnmarshaller = Some APICallPathFinder
   \<and> find_path_of_class V31WebhookRequestBodyValidator = Some WebhookPathFinder
   \<and> find_path_of_class V31WebhookRequestParametersValidator = Some WebhookPathFinder
   \<and> find_path_of_class V31WebhookRequestSecurityValidator = Some WebhookPathFinder
   \<and> find_path_of_class V31WebhookRequestValidator = Some WebhookPathFinder
   \<and> find_path_of_class V31WebhookRequestBodyUnmarshaller = Some WebhookPathFinder
   \<and> find_path_of_class V31WebhookRequestParametersUnmarshaller = Some WebhookPathFinder
   \<and> find_path_of_class V31WebhookRequestSecurityUnmarshaller = Some WebhookPathFinder
   \<and> find_path_of_class V31WebhookRequestUnmarshaller = Some WebhookPathFinder
   \<and> filter (\<lambda>c. find_path_of_class c = Some WebhookPathFinder) module_classes =
       [BaseWebhookRequestValidator, WebhookRequestValidator, WebhookRequestBodyValidator,
       WebhookRequestParametersValidator, WebhookRequestSecurityValidator,
       V31WebhookRequestBodyValidator, V31WebhookRequestParametersValidator,
       V31WebhookRequestSecurityValidator, V31WebhookRequestValidator,
       WebhookRequestUnmarshaller, WebhookRequestBodyUnmarshaller,
       WebhookRequestParametersUnmarshaller, WebhookRequestSecuritysUnmarshaller,
       V31WebhookRequestBodyUnmarshaller, V31WebhookRequestParametersUnmarshaller,
       V31WebhookRequestSecurityUnmarshaller, V31WebhookRequestUnmarshaller]
   \<and> path_finder_cls V31RequestValidator = Some WebhookPathFinder"
  by (simp add: find_path_of_class_simps module_classes_def)

end
